(* ===== verification/Prelude.thy ===== *)
theory Prelude
  imports Complex_Main "HOL-Library.Word" "HOL-Library.Signed_Division"
begin

text \<open>
  Shared vocabulary of the development: the Python exceptions the two scripts can raise,
  bytes as 8-bit words, and the Python built-ins the scripts call on strings, lists and
  numbers (\<open>str.split\<close>, list indexing, \<open>int()\<close> of a float, \<open>str()\<close> of an
  int), each with the behaviour CPython gives it, including the exceptions.
  The lemmas here are the generic facts the component theories share; the ones that
  rewrite are collected in \<open>py_simps\<close>.
\<close>

named_theorems py_simps "evaluation rules of the modelled Python built-ins"

section \<open>Python exceptions and bytes\<close>

text \<open>
  The exception classes that can reach an \<open>except Exception\<close> handler of the
  scripts. \<open>CvError\<close> is OpenCV's \<open>cv2.error\<close>; \<open>FileNotFoundError\<close> is the
  \<open>OSError\<close> of \<open>open()\<close> on a missing file.
\<close>

datatype py_exc =
    AttributeError
  | TypeError
  | ValueError
  | IndexError
  | UnboundLocalError
  | CvError
  | BinasciiError string
  | FileNotFoundError

type_synonym byte = "8 word"
type_synonym bytes = "byte list"

text \<open>Short-circuiting sequencing of fallible steps: a raise skips the rest.\<close>

definition py_bind :: "py_exc + 'a \<Rightarrow> ('a \<Rightarrow> py_exc + 'b) \<Rightarrow> py_exc + 'b" where
  "py_bind m f = (case m of Inl e \<Rightarrow> Inl e | Inr a \<Rightarrow> f a)"

lemma py_bind_Inl [simp, py_simps]: "py_bind (Inl e) f = Inl e"
  by (simp add: py_bind_def)

lemma py_bind_Inr [simp, py_simps]: "py_bind (Inr a) f = f a"
  by (simp add: py_bind_def)

lemma py_bind_eq_Inr:
  "py_bind m f = Inr b \<longleftrightarrow> (\<exists>a. m = Inr a \<and> f a = Inr b)"
  by (cases m) auto

section \<open>Lists: indexing\<close>

text \<open>\<open>xs[i]\<close>: negative indices count from the end; out of range raises IndexError.\<close>

definition py_index :: "'a list \<Rightarrow> int \<Rightarrow> py_exc + 'a" where
  "py_index xs i =
     (let k = (if 0 \<le> i then i else i + int (length xs))
      in if k < 0 \<or> int (length xs) \<le> k then Inl IndexError else Inr (xs ! nat k))"

lemma py_index_0 [simp, py_simps]: "py_index (x # xs) 0 = Inr x"
  by (simp add: py_index_def)

lemma py_index_1 [simp, py_simps]: "py_index (x # y # xs) 1 = Inr y"
  by (simp add: py_index_def)

lemma py_index_Nil [simp, py_simps]: "py_index [] i = Inl IndexError"
  by (simp add: py_index_def)

lemma py_index_single_1 [simp, py_simps]: "py_index [x] 1 = Inl IndexError"
  by (simp add: py_index_def)

text \<open>\<open>List.find\<close> as a lookup by key: the facts the attribute and table lookups use.\<close>

lemma find_Some_sat: "find P xs = Some x \<Longrightarrow> P x \<and> x \<in> set xs"
  by (induction xs) (auto split: if_splits)

lemma find_key_inj:
  "inj_on f (set xs) \<Longrightarrow> a \<in> set xs \<Longrightarrow> find (\<lambda>d. f d = k) xs = Some a \<longleftrightarrow> f a = k"
proof (induction xs)
  case Nil
  then show ?case by simp
next
  case (Cons x xs)
  show ?case
  proof (cases "x = a")
    case True
    then show ?thesis by (auto dest: find_Some_sat)
  next
    case False
    with Cons.prems have "f x \<noteq> f a" and "a \<in> set xs" and "inj_on f (set xs)"
      by (auto simp: inj_on_def)
    with Cons.IH False show ?thesis by auto
  qed
qed

section \<open>Strings: \<open>str.split\<close> and \<open>str.join\<close>\<close>

text \<open>
  \<open>s.split(sep)\<close> for a non-empty separator scans left to right and cuts at every
  non-overlapping occurrence of \<open>sep\<close>; an empty separator raises ValueError.
  \<open>split_at_sep\<close> is the scan: at each position either \<open>sep\<close> starts there (a cut,
  and the scan resumes after it) or the character belongs to the current piece.
\<close>

fun split_at_sep :: "string \<Rightarrow> string \<Rightarrow> string list" where
  "split_at_sep sep [] = [[]]"
| "split_at_sep sep (c # cs) =
     (if sep \<noteq> [] \<and> take (length sep) (c # cs) = sep
      then [] # split_at_sep sep (drop (length sep) (c # cs))
      else (case split_at_sep sep cs of [] \<Rightarrow> [[c]] | w # ws \<Rightarrow> (c # w) # ws))"

definition py_split :: "string \<Rightarrow> string \<Rightarrow> py_exc + string list" where
  "py_split s sep = (if sep = [] then Inl ValueError else Inr (split_at_sep sep s))"

text \<open>\<open>sep.join(ws)\<close>: the pieces with \<open>sep\<close> between consecutive ones.\<close>

fun py_join :: "string \<Rightarrow> string list \<Rightarrow> string" where
  "py_join sep [] = []"
| "py_join sep [w] = w"
| "py_join sep (w # v # ws) = w @ sep @ py_join sep (v # ws)"

lemma split_at_sep_nonempty: "split_at_sep sep s \<noteq> []"
  by (induction sep s rule: split_at_sep.induct) (auto split: list.splits)

lemma py_join_Cons_head:
  "ws \<noteq> [] \<Longrightarrow> py_join sep ((c # w) # ws') = c # py_join sep (w # ws')"
  by (cases ws') auto

lemma split_at_sep_join: "py_join sep (split_at_sep sep s) = s"
proof (induction sep s rule: split_at_sep.induct)
  case (1 sep)
  then show ?case by simp
next
  case (2 sep c cs)
  show ?case
  proof (cases "sep \<noteq> [] \<and> take (length sep) (c # cs) = sep")
    case True
    then have IH: "py_join sep (split_at_sep sep (drop (length sep) (c # cs))) =
                   drop (length sep) (c # cs)"
      using "2.IH"(1) by blast
    obtain w ws where sp: "split_at_sep sep (drop (length sep) (c # cs)) = w # ws"
      using split_at_sep_nonempty by (metis list.exhaust)
    from True have "sep @ drop (length sep) (c # cs) = c # cs"
      by (metis append_take_drop_id)
    with True IH sp show ?thesis by simp
  next
    case False
    then have IH: "py_join sep (split_at_sep sep cs) = cs"
      using "2.IH"(2) by blast
    obtain w ws where sp: "split_at_sep sep cs = w # ws"
      using split_at_sep_nonempty by (metis list.exhaust)
    from False IH sp show ?thesis by (cases ws) auto
  qed
qed

text \<open>Splitting at a one-character separator cuts a text made of terminated lines back
  into its lines, plus the empty piece after the last terminator.\<close>

lemma split_at_sep_single_append:
  "c \<notin> set l \<Longrightarrow> split_at_sep [c] (l @ c # rest) = l # split_at_sep [c] rest"
  by (induction l) auto

lemma split_at_sep_lines:
  "list_all (\<lambda>l. c \<notin> set l) ls \<Longrightarrow> split_at_sep [c] (concat (map (\<lambda>l. l @ [c]) ls)) = ls @ [[]]"
  by (induction ls) (auto simp: split_at_sep_single_append)

section \<open>Numbers: \<open>int()\<close> of a float and \<open>str()\<close> of an int\<close>

text \<open>
  OpenCV returns corner coordinates as finite \<open>float32\<close> values; every finite float is
  a rational, so they are modelled as \<open>rat\<close>. Python's \<open>int(x)\<close> on a float
  truncates towards zero (it is not \<open>floor\<close>).
\<close>

definition py_int_of_float :: "rat \<Rightarrow> int" where
  "py_int_of_float q = (if 0 \<le> q then \<lfloor>q\<rfloor> else \<lceil>q\<rceil>)"

lemma py_int_of_float_of_int [simp, py_simps]: "py_int_of_float (of_int k) = k"
  by (simp add: py_int_of_float_def)

text \<open>\<open>int(k / 2.0)\<close> for an integer \<open>k\<close> is truncating division by two.\<close>

lemma py_int_of_float_half: "py_int_of_float (of_int k / 2) = k sdiv 2"
proof (cases "0 \<le> k")
  case True
  then have "\<lfloor>(of_int k :: rat) / 2\<rfloor> = k div 2"
    by (metis floor_divide_of_int_eq of_int_numeral)
  with True show ?thesis
    by (auto simp: py_int_of_float_def signed_divide_int_def sgn_if)
next
  case False
  then have "\<lceil>(of_int k :: rat) / 2\<rceil> = - ((- k) div 2)"
    by (metis ceiling_def floor_divide_of_int_eq minus_divide_left of_int_minus of_int_numeral)
  with False show ?thesis
    by (simp add: py_int_of_float_def signed_divide_int_def)
qed

text \<open>\<open>str(n)\<close> of an integer: an optional minus sign and the decimal digits.\<close>

fun dec_digits :: "nat \<Rightarrow> string" where
  "dec_digits n =
     (if n < 10 then [char_of (48 + n)] else dec_digits (n div 10) @ [char_of (48 + n mod 10)])"

declare dec_digits.simps [simp del]

definition py_str_int :: "int \<Rightarrow> string" where
  "py_str_int i = (if i < 0 then CHR ''-'' # dec_digits (nat (- i)) else dec_digits (nat i))"

lemma dec_digits_small [simp, py_simps]: "n < 10 \<Longrightarrow> dec_digits n = [char_of (48 + n)]"
  by (simp add: dec_digits.simps)

lemma dec_digits_step: "10 \<le> n \<Longrightarrow> dec_digits n = dec_digits (n div 10) @ [char_of (48 + n mod 10)]"
  by (simp add: dec_digits.simps [of n])

end
