(* ===== verification/ArucoDict.thy ===== *)
theory ArucoDict
  imports Prelude
begin

text \<open>
  The dictionary catalog of \<open>src/aruco_marker_detection/app.py\<close>: the predefined
  dictionaries of \<open>cv2.aruco\<close> (OpenCV 4.6, the last release with
  \<open>Dictionary_get\<close>) as a datatype, the module attribute lookup \<open>getattr(arucom, key)\<close>
  the annotator uses, and the ordered table \<open>self.ARUCO_DICT\<close> built by
  \<open>Aruco.__init__\<close>. A Python \<open>dict\<close> iterates in insertion order, so the table is
  an association list in source order. The lemmas show it is a well-formed dictionary
  (distinct keys), that each key is the name of the constant it maps to, and that it
  lists every predefined dictionary exactly once.
\<close>

section \<open>The predefined dictionaries of \<open>cv2.aruco\<close>\<close>

datatype aruco_dict =
    DICT_4X4_50 | DICT_4X4_100 | DICT_4X4_250 | DICT_4X4_1000
  | DICT_5X5_50 | DICT_5X5_100 | DICT_5X5_250 | DICT_5X5_1000
  | DICT_6X6_50 | DICT_6X6_100 | DICT_6X6_250 | DICT_6X6_1000
  | DICT_7X7_50 | DICT_7X7_100 | DICT_7X7_250 | DICT_7X7_1000
  | DICT_ARUCO_ORIGINAL
  | DICT_APRILTAG_16h5 | DICT_APRILTAG_25h9 | DICT_APRILTAG_36h10 | DICT_APRILTAG_36h11

text \<open>The attribute name under which \<open>cv2.aruco\<close> exports each constant.\<close>

fun cv_dict_name :: "aruco_dict \<Rightarrow> string" where
  "cv_dict_name DICT_4X4_50 = ''DICT_4X4_50''"
| "cv_dict_name DICT_4X4_100 = ''DICT_4X4_100''"
| "cv_dict_name DICT_4X4_250 = ''DICT_4X4_250''"
| "cv_dict_name DICT_4X4_1000 = ''DICT_4X4_1000''"
| "cv_dict_name DICT_5X5_50 = ''DICT_5X5_50''"
| "cv_dict_name DICT_5X5_100 = ''DICT_5X5_100''"
| "cv_dict_name DICT_5X5_250 = ''DICT_5X5_250''"
| "cv_dict_name DICT_5X5_1000 = ''DICT_5X5_1000''"
| "cv_dict_name DICT_6X6_50 = ''DICT_6X6_50''"
| "cv_dict_name DICT_6X6_100 = ''DICT_6X6_100''"
| "cv_dict_name DICT_6X6_250 = ''DICT_6X6_250''"
| "cv_dict_name DICT_6X6_1000 = ''DICT_6X6_1000''"
| "cv_dict_name DICT_7X7_50 = ''DICT_7X7_50''"
| "cv_dict_name DICT_7X7_100 = ''DICT_7X7_100''"
| "cv_dict_name DICT_7X7_250 = ''DICT_7X7_250''"
| "cv_dict_name DICT_7X7_1000 = ''DICT_7X7_1000''"
| "cv_dict_name DICT_ARUCO_ORIGINAL = ''DICT_ARUCO_ORIGINAL''"
| "cv_dict_name DICT_APRILTAG_16h5 = ''DICT_APRILTAG_16h5''"
| "cv_dict_name DICT_APRILTAG_25h9 = ''DICT_APRILTAG_25h9''"
| "cv_dict_name DICT_APRILTAG_36h10 = ''DICT_APRILTAG_36h10''"
| "cv_dict_name DICT_APRILTAG_36h11 = ''DICT_APRILTAG_36h11''"

text \<open>The constants in the order of their numeric values (0 to 20) in OpenCV.\<close>

definition cv_dicts :: "aruco_dict list" where
  "cv_dicts =
     [DICT_4X4_50, DICT_4X4_100, DICT_4X4_250, DICT_4X4_1000,
      DICT_5X5_50, DICT_5X5_100, DICT_5X5_250, DICT_5X5_1000,
      DICT_6X6_50, DICT_6X6_100, DICT_6X6_250, DICT_6X6_1000,
      DICT_7X7_50, DICT_7X7_100, DICT_7X7_250, DICT_7X7_1000,
      DICT_ARUCO_ORIGINAL,
      DICT_APRILTAG_16h5, DICT_APRILTAG_25h9, DICT_APRILTAG_36h10, DICT_APRILTAG_36h11]"

text \<open>\<open>getattr(arucom, key)\<close>: the constant of that name, AttributeError otherwise.\<close>

definition aruco_getattr :: "string \<Rightarrow> py_exc + aruco_dict" where
  "aruco_getattr key =
     (case find (\<lambda>d. cv_dict_name d = key) cv_dicts of
        None \<Rightarrow> Inl AttributeError
      | Some d \<Rightarrow> Inr d)"

section \<open>The catalog \<open>self.ARUCO_DICT\<close>\<close>

definition ARUCO_DICT :: "(string \<times> aruco_dict) list" where
  "ARUCO_DICT =
     [(''DICT_4X4_50'', DICT_4X4_50),
      (''DICT_4X4_100'', DICT_4X4_100),
      (''DICT_4X4_250'', DICT_4X4_250),
      (''DICT_4X4_1000'', DICT_4X4_1000),
      (''DICT_5X5_50'', DICT_5X5_50),
      (''DICT_5X5_100'', DICT_5X5_100),
      (''DICT_5X5_250'', DICT_5X5_250),
      (''DICT_5X5_1000'', DICT_5X5_1000),
      (''DICT_6X6_50'', DICT_6X6_50),
      (''DICT_6X6_100'', DICT_6X6_100),
      (''DICT_6X6_250'', DICT_6X6_250),
      (''DICT_6X6_1000'', DICT_6X6_1000),
      (''DICT_7X7_50'', DICT_7X7_50),
      (''DICT_7X7_100'', DICT_7X7_100),
      (''DICT_7X7_250'', DICT_7X7_250),
      (''DICT_7X7_1000'', DICT_7X7_1000),
      (''DICT_ARUCO_ORIGINAL'', DICT_ARUCO_ORIGINAL),
      (''DICT_APRILTAG_16h5'', DICT_APRILTAG_16h5),
      (''DICT_APRILTAG_25h9'', DICT_APRILTAG_25h9),
      (''DICT_APRILTAG_36h10'', DICT_APRILTAG_36h10),
      (''DICT_APRILTAG_36h11'', DICT_APRILTAG_36h11)]"

text \<open>Well-formedness of a name table: a Python dictionary (no key twice).\<close>

definition catalog_wf :: "(string \<times> aruco_dict) list \<Rightarrow> bool" where
  "catalog_wf tbl \<longleftrightarrow> distinct (map fst tbl)"

section \<open>Facts about the catalog\<close>

lemma set_cv_dicts [simp]: "set cv_dicts = UNIV"
proof -
  have "d \<in> set cv_dicts" for d
    by (cases d) (simp_all add: cv_dicts_def)
  then show ?thesis by blast
qed

lemma distinct_cv_dicts: "distinct cv_dicts"
  by (simp add: cv_dicts_def)

lemma distinct_cv_dict_names: "distinct (map cv_dict_name cv_dicts)"
  by (simp add: cv_dicts_def)

lemma cv_dict_name_inj: "inj cv_dict_name"
  using distinct_cv_dict_names by (simp add: distinct_map)

lemma cv_dict_name_eq_iff [simp]: "cv_dict_name a = cv_dict_name b \<longleftrightarrow> a = b"
  using cv_dict_name_inj by (auto dest: injD)

lemma ARUCO_DICT_eq_map: "ARUCO_DICT = map (\<lambda>d. (cv_dict_name d, d)) cv_dicts"
  by (simp add: ARUCO_DICT_def cv_dicts_def)

lemma ARUCO_DICT_names: "map fst ARUCO_DICT = map cv_dict_name cv_dicts"
  by (simp add: ARUCO_DICT_eq_map comp_def)

lemma ARUCO_DICT_entry_name: "(n, d) \<in> set ARUCO_DICT \<Longrightarrow> n = cv_dict_name d"
  by (auto simp: ARUCO_DICT_eq_map)

lemma aruco_getattr_name [simp]: "aruco_getattr (cv_dict_name d) = Inr d"
proof -
  have "find (\<lambda>x. cv_dict_name x = cv_dict_name d) cv_dicts = Some d"
    using cv_dict_name_inj by (simp add: find_key_inj inj_on_subset [of _ UNIV])
  then show ?thesis by (simp add: aruco_getattr_def)
qed

lemma aruco_getattr_Inr: "aruco_getattr key = Inr d \<Longrightarrow> key = cv_dict_name d"
  by (auto simp: aruco_getattr_def split: option.splits dest: find_Some_sat)

lemma aruco_getattr_other:
  "key \<notin> set (map fst ARUCO_DICT) \<Longrightarrow> aruco_getattr key = Inl AttributeError"
proof -
  assume "key \<notin> set (map fst ARUCO_DICT)"
  then have "\<forall>d. cv_dict_name d \<noteq> key"
    by (simp only: ARUCO_DICT_names set_map set_cv_dicts) blast
  then have "find (\<lambda>d. cv_dict_name d = key) cv_dicts = None"
    by (simp add: find_None_iff)
  then show ?thesis by (simp add: aruco_getattr_def)
qed

section \<open>The catalog invariant\<close>

text \<open>
  C9. The table \<open>self.ARUCO_DICT\<close> built by \<open>Aruco.__init__\<close> is a well-formed
  dictionary (no key twice) of 21 entries, each key is the name under which
  \<open>cv2.aruco\<close> exports the constant it maps to, and every predefined dictionary
  occurs in it.
\<close>

theorem ARUCO_DICT_inv:
  "catalog_wf ARUCO_DICT \<and> length ARUCO_DICT = 21 \<and>
   map fst ARUCO_DICT = map (cv_dict_name \<circ> snd) ARUCO_DICT \<and>
   set (map snd ARUCO_DICT) = UNIV"
proof (intro conjI)
  show "catalog_wf ARUCO_DICT"
    by (simp add: catalog_wf_def ARUCO_DICT_names distinct_cv_dict_names)
  show "length ARUCO_DICT = 21"
    by (simp add: ARUCO_DICT_def)
  show "map fst ARUCO_DICT = map (cv_dict_name \<circ> snd) ARUCO_DICT"
    by (simp add: ARUCO_DICT_eq_map comp_def)
  show "set (map snd ARUCO_DICT) = UNIV"
    by (simp add: ARUCO_DICT_eq_map comp_def)
qed

end
