(* ===== verification/Base64.thy ===== *)
theory Base64
  imports Prelude
begin

text \<open>
  The base64 codec both scripts call, as CPython implements it (\<open>Lib/base64.py\<close> and
  \<open>Modules/binascii.c\<close>; the library is not part of the repository, so the model
  follows its documented behaviour). \<open>b2a_base64\<close> encodes a chunk in groups of three
  bytes and ends the line with a newline; \<open>encodebytes\<close> cuts its input into chunks of
  \<open>MAXBINSIZE = 57\<close> bytes (76 characters a line). \<open>a2b_base64\<close> (non-strict mode)
  is a four-state scanner that skips every character outside the alphabet, stops at a
  pad sequence that completes a quantum, and rejects an unfinished quantum. The
  \<open>base64\<close> functions first check that their argument is a one-dimensional buffer of
  single bytes (\<open>_input_type_check\<close>); a buffer is modelled by what
  \<open>memoryview\<close> reports of it. The base64 text is a \<open>string\<close> of ASCII characters.
\<close>

section \<open>The alphabet\<close>

definition b64_char :: "nat \<Rightarrow> char" where
  "b64_char n =
     char_of (if n < 26 then n + 65 else if n < 52 then n + 71
              else if n < 62 then n - 4 else if n = 62 then 43 else 47 :: nat)"

text \<open>\<open>table_a2b_base64\<close>: the value of an alphabet character, \<open>None\<close> for the rest.\<close>

definition b64_index :: "char \<Rightarrow> nat option" where
  "b64_index c =
     (let n = of_char c :: nat in
      if 65 \<le> n \<and> n \<le> 90 then Some (n - 65)
      else if 97 \<le> n \<and> n \<le> 122 then Some (n - 71)
      else if 48 \<le> n \<and> n \<le> 57 then Some (n + 4)
      else if n = 43 then Some 62
      else if n = 47 then Some 63
      else None)"

text \<open>The standard alphabet of RFC 4648 (\<open>table_b2a_base64\<close>), against which the
  arithmetic of \<open>b64_char\<close> is checked below.\<close>

definition b64_alphabet :: string where
  "b64_alphabet = ''ABCDEFGHIJKLMNOPQRSTUVWXYZabcdefghijklmnopqrstuvwxyz0123456789+/''"

section \<open>Encoding: \<open>binascii.b2a_base64\<close> and \<open>base64.encodebytes\<close>\<close>

fun b2a_groups :: "bytes \<Rightarrow> string" where
  "b2a_groups (a # b # c # rest) =
     [b64_char (unat a div 4), b64_char (unat a mod 4 * 16 + unat b div 16),
      b64_char (unat b mod 16 * 4 + unat c div 64), b64_char (unat c mod 64)] @ b2a_groups rest"
| "b2a_groups [a, b] =
     [b64_char (unat a div 4), b64_char (unat a mod 4 * 16 + unat b div 16),
      b64_char (unat b mod 16 * 4), CHR ''='']"
| "b2a_groups [a] = [b64_char (unat a div 4), b64_char (unat a mod 4 * 16), CHR ''='', CHR ''='']"
| "b2a_groups [] = []"

definition b2a_base64 :: "bytes \<Rightarrow> string" where
  "b2a_base64 chunk = b2a_groups chunk @ [CHR ''\<newline>'']"

text \<open>\<open>for i in range(0, len(s), MAXBINSIZE): chunk = s[i : i + MAXBINSIZE]\<close>\<close>

function chunks_of :: "nat \<Rightarrow> 'a list \<Rightarrow> 'a list list" where
  "chunks_of n xs = (if xs = [] \<or> n = 0 then [] else take n xs # chunks_of n (drop n xs))"
  by pat_completeness auto
termination
  by (relation "measure (\<lambda>(n, xs). length xs)") auto

declare chunks_of.simps [simp del]

definition MAXBINSIZE :: nat where
  "MAXBINSIZE = 57"

definition encodebytes_raw :: "bytes \<Rightarrow> string" where
  "encodebytes_raw s = concat (map b2a_base64 (chunks_of MAXBINSIZE s))"

text \<open>What \<open>memoryview\<close> reports of a buffer: its element format, its number of
  dimensions and its bytes in C order.\<close>

record buffer =
  buf_format :: string
  buf_ndim :: nat
  buf_bytes :: bytes

definition bytes_buffer :: "bytes \<Rightarrow> buffer" where
  "bytes_buffer s = \<lparr>buf_format = ''B'', buf_ndim = 1, buf_bytes = s\<rparr>"

definition input_type_check :: "buffer \<Rightarrow> py_exc + unit" where
  "input_type_check m =
     (if buf_format m \<notin> {''c'', ''b'', ''B''} then Inl TypeError
      else if buf_ndim m \<noteq> 1 then Inl TypeError
      else Inr ())"

definition encodebytes :: "buffer \<Rightarrow> py_exc + string" where
  "encodebytes s = py_bind (input_type_check s) (\<lambda>_. Inr (encodebytes_raw (buf_bytes s)))"

text \<open>\<open>base64.encodestring\<close> (Python 3.1 to 3.8) is a deprecated alias of
  \<open>encodebytes\<close>; Python 3.9 removed it.\<close>

definition encodestring :: "buffer \<Rightarrow> py_exc + string" where
  "encodestring s = encodebytes s"

section \<open>Decoding: \<open>binascii.a2b_base64\<close> and \<open>base64.decodebytes\<close>\<close>

text \<open>
  The scanner's state is the position in the current quantum \<open>q\<close>, the bits left
  over from the previous character \<open>lc\<close>, the number of pad characters seen since the
  last data character, and the bytes produced so far.
\<close>

fun a2b_loop :: "nat \<Rightarrow> nat \<Rightarrow> nat \<Rightarrow> string \<Rightarrow> bytes \<Rightarrow> py_exc + bytes" where
  "a2b_loop q lc pads [] acc =
     (if q = 0 then Inr acc
      else if q = 1 then Inl (BinasciiError ''Invalid base64-encoded string'')
      else Inl (BinasciiError ''Incorrect padding''))"
| "a2b_loop q lc pads (c # cs) acc =
     (if c = CHR ''='' then
        (if 2 \<le> q \<and> 4 \<le> q + Suc pads then Inr acc else a2b_loop q lc (Suc pads) cs acc)
      else (case b64_index c of
              None \<Rightarrow> a2b_loop q lc pads cs acc
            | Some v \<Rightarrow>
                (if q = 0 then a2b_loop 1 v 0 cs acc
                 else if q = 1 then a2b_loop 2 (v mod 16) 0 cs (acc @ [of_nat (lc * 4 + v div 16)])
                 else if q = 2 then a2b_loop 3 (v mod 4) 0 cs (acc @ [of_nat (lc * 16 + v div 4)])
                 else a2b_loop 0 0 0 cs (acc @ [of_nat (lc * 64 + v)]))))"

text \<open>The characters the scanner acts on: the alphabet and the pad; every other
  character is skipped.\<close>

definition b64_significant :: "char \<Rightarrow> bool" where
  "b64_significant c = (case b64_index c of None \<Rightarrow> c = CHR ''='' | Some _ \<Rightarrow> True)"

definition a2b_base64 :: "string \<Rightarrow> py_exc + bytes" where
  "a2b_base64 s = a2b_loop 0 0 0 s []"

text \<open>\<open>decodebytes\<close> checks its argument like \<open>encodebytes\<close>; the scripts pass it a
  \<open>bytes\<close> object, which passes the check.\<close>

definition decodebytes :: "string \<Rightarrow> py_exc + bytes" where
  "decodebytes s = a2b_base64 s"

section \<open>The input check\<close>

lemma encodestring_ndim: "buf_ndim m \<noteq> 1 \<Longrightarrow> encodestring m = Inl TypeError"
  by (simp add: encodestring_def encodebytes_def input_type_check_def)

section \<open>Decoding inverts encoding\<close>

text \<open>
  The alphabet is decoded by \<open>b64_index\<close>, a quantum of four characters gives back
  its three bytes, a padded quantum ends the scan with its one or two bytes, and the
  newline that ends each chunk is skipped. Chunks of 57 bytes have no padding, so only
  the last chunk can end the scan early.
\<close>

lemma b64_index_char: "n < 64 \<Longrightarrow> b64_index (b64_char n) = Some n"
  by (auto simp: b64_index_def b64_char_def Let_def)

lemma b64_char_not_pad: "n < 64 \<Longrightarrow> b64_char n \<noteq> CHR ''=''"
  using b64_index_char [of n] by (auto simp: b64_index_def)

lemma b64_index_newline [simp, py_simps]: "b64_index CHR ''\<newline>'' = None"
  by (simp add: b64_index_def)

lemma unat_byte_lt: "unat (a :: byte) < 256"
  using unsigned_less [of a] by simp

lemma a2b_quad:
  assumes "v0 < 64" "v1 < 64" "v2 < 64" "v3 < 64"
  shows "a2b_loop 0 0 0 ([b64_char v0, b64_char v1, b64_char v2, b64_char v3] @ rest) acc
         = a2b_loop 0 0 0 rest
             (acc @ [of_nat (v0 * 4 + v1 div 16), of_nat (v1 mod 16 * 16 + v2 div 4),
                     of_nat (v2 mod 4 * 64 + v3)])"
  using assms by (simp add: b64_index_char b64_char_not_pad)

lemma a2b_group:
  "a2b_loop 0 0 0 ([b64_char (unat a div 4), b64_char (unat a mod 4 * 16 + unat b div 16),
      b64_char (unat b mod 16 * 4 + unat c div 64), b64_char (unat c mod 64)] @ rest) acc
   = a2b_loop 0 0 0 rest (acc @ [a, b, c])"
proof -
  have la: "unat a < 256" and lb: "unat b < 256" and lc: "unat c < 256"
    by (rule unat_byte_lt)+
  have c0: "unat a div 4 < 64" using la by simp
  have c1: "unat a mod 4 * 16 + unat b div 16 < 64" using lb by simp
  have c2: "unat b mod 16 * 4 + unat c div 64 < 64" using lc by simp
  have c3: "unat c mod 64 < 64" by simp
  have e0: "unat a div 4 * 4 + (unat a mod 4 * 16 + unat b div 16) div 16 = unat a"
    using lb by simp
  have e1: "(unat a mod 4 * 16 + unat b div 16) mod 16 * 16 + (unat b mod 16 * 4 + unat c div 64) div 4 = unat b"
    using lb lc by simp
  have e2: "(unat b mod 16 * 4 + unat c div 64) mod 4 * 64 + unat c mod 64 = unat c"
    using lc by simp
  show ?thesis
    using a2b_quad [OF c0 c1 c2 c3, of rest acc]
    by (simp only: e0 e1 e2 of_nat_unat ucast_id)
qed

lemma a2b_pair:
  assumes "v0 < 64" "v1 < 64" "v2 < 64"
  shows "a2b_loop 0 0 0 ([b64_char v0, b64_char v1, b64_char v2, CHR ''=''] @ rest) acc
         = Inr (acc @ [of_nat (v0 * 4 + v1 div 16), of_nat (v1 mod 16 * 16 + v2 div 4)])"
  using assms by (simp add: b64_index_char b64_char_not_pad)

lemma a2b_single:
  assumes "v0 < 64" "v1 < 64"
  shows "a2b_loop 0 0 0 ([b64_char v0, b64_char v1, CHR ''='', CHR ''=''] @ rest) acc
         = Inr (acc @ [of_nat (v0 * 4 + v1 div 16)])"
  using assms by (simp add: b64_index_char b64_char_not_pad)

lemma a2b_groups:
  "a2b_loop 0 0 0 (b2a_groups xs @ CHR ''\<newline>'' # rest) acc =
     (if length xs mod 3 = 0 then a2b_loop 0 0 0 rest (acc @ xs) else Inr (acc @ xs))"
proof (induction xs arbitrary: acc rule: b2a_groups.induct)
  case (1 a b c rest')
  have "a2b_loop 0 0 0 (b2a_groups (a # b # c # rest') @ CHR ''\<newline>'' # rest) acc =
        a2b_loop 0 0 0 (b2a_groups rest' @ CHR ''\<newline>'' # rest) (acc @ [a, b, c])"
    using a2b_group [of a b c "b2a_groups rest' @ CHR ''\<newline>'' # rest" acc] by simp
  with "1.IH" show ?case by simp
next
  case (2 a b)
  have la: "unat a < 256" and lb: "unat b < 256" by (rule unat_byte_lt)+
  have e0: "unat a div 4 * 4 + (unat a mod 4 * 16 + unat b div 16) div 16 = unat a"
    using lb by simp
  have e1: "(unat a mod 4 * 16 + unat b div 16) mod 16 * 16 + unat b mod 16 * 4 div 4 = unat b"
    using lb by simp
  have "a2b_loop 0 0 0 (b2a_groups [a, b] @ CHR ''\<newline>'' # rest) acc = Inr (acc @ [a, b])"
    using a2b_pair [of "unat a div 4" "unat a mod 4 * 16 + unat b div 16" "unat b mod 16 * 4"
                       "CHR ''\<newline>'' # rest" acc] la lb
    by (simp only: b2a_groups.simps append.simps e0 e1 of_nat_unat ucast_id)
  then show ?case by simp
next
  case (3 a)
  have la: "unat a < 256" by (rule unat_byte_lt)
  have e0: "unat a div 4 * 4 + unat a mod 4 * 16 div 16 = unat a"
    by simp
  have "a2b_loop 0 0 0 (b2a_groups [a] @ CHR ''\<newline>'' # rest) acc = Inr (acc @ [a])"
    using a2b_single [of "unat a div 4" "unat a mod 4 * 16" "CHR ''\<newline>'' # rest" acc] la
    by (simp only: b2a_groups.simps append.simps e0 of_nat_unat ucast_id)
  then show ?case by simp
next
  case 4
  then show ?case by simp
qed

lemma chunks_of_Nil [simp, code]: "chunks_of n [] = []"
  by (simp add: chunks_of.simps)

text \<open>The code equations unfold \<open>chunks_of\<close> only on a non-empty list, so that
  evaluation by rewriting stops on an input it cannot take apart.\<close>

lemma chunks_of_Cons [code]:
  "chunks_of n (x # xs) = (if n = 0 then [] else take n (x # xs) # chunks_of n (drop n (x # xs)))"
  by (simp add: chunks_of.simps [of n "x # xs"])

lemma a2b_b2a_base64:
  "a2b_loop 0 0 0 (b2a_base64 c @ rest) acc =
     (if length c mod 3 = 0 then a2b_loop 0 0 0 rest (acc @ c) else Inr (acc @ c))"
  using a2b_groups [of c rest acc] by (simp add: b2a_base64_def)

lemma a2b_chunks:
  "0 < n \<Longrightarrow> n mod 3 = 0 \<Longrightarrow> a2b_loop 0 0 0 (concat (map b2a_base64 (chunks_of n xs))) acc = Inr (acc @ xs)"
proof (induction n xs arbitrary: acc rule: chunks_of.induct)
  case (1 n xs)
  show ?case
  proof (cases "xs = [] \<or> n = 0")
    case True
    with "1.prems" show ?thesis by (auto simp: chunks_of.simps [of n xs])
  next
    case False
    then have ch: "chunks_of n xs = take n xs # chunks_of n (drop n xs)"
      by (simp add: chunks_of.simps [of n xs])
    have IH: "a2b_loop 0 0 0 (concat (map b2a_base64 (chunks_of n (drop n xs)))) acc' =
              Inr (acc' @ drop n xs)" for acc'
      using "1.IH" [OF False "1.prems"] .
    show ?thesis
    proof (cases "length (take n xs) mod 3 = 0")
      case True
      then show ?thesis
        by (simp add: ch a2b_b2a_base64 IH)
    next
      case False
      with "1.prems" have "length xs < n"
        by (cases "n \<le> length xs") (auto simp: min_def)
      then have "drop n xs = []" by simp
      with False show ?thesis
        using a2b_b2a_base64 [of "take n xs" "[]" acc] by (simp add: ch)
    qed
  qed
qed

lemma decode_encode: "a2b_base64 (encodebytes_raw s) = Inr s"
  using a2b_chunks [of MAXBINSIZE s "[]"]
  by (simp add: a2b_base64_def encodebytes_raw_def MAXBINSIZE_def)

section \<open>The length of the encoding\<close>

text \<open>Four characters per started group of three bytes, one newline per started
  chunk of 57 bytes.\<close>

lemma div3_Suc3: "(5 + l) div 3 = Suc (Suc l) div 3 + (1::nat)"
proof -
  have "5 + l = Suc (Suc l) + 3" by simp
  then show ?thesis by (simp only: div_add_self2)
qed

lemma length_b2a_groups: "length (b2a_groups xs) = 4 * ((length xs + 2) div 3)"
proof (induction xs rule: b2a_groups.induct)
  case (1 a b c rest)
  then show ?case by (simp add: div3_Suc3)
qed simp_all

lemma div57_one: "(l::nat) \<le> 57 \<Longrightarrow> 0 < l \<Longrightarrow> (l + 56) div 57 = 1"
  by (rule div_nat_eqI) simp_all

lemma length_encodebytes_raw:
  "length (encodebytes_raw xs) = 4 * ((length xs + 2) div 3) + (length xs + 56) div 57"
  unfolding encodebytes_raw_def MAXBINSIZE_def
proof (induction "57::nat" xs rule: chunks_of.induct)
  case (1 xs)
  show ?case
  proof (cases "xs = []")
    case True
    then show ?thesis by simp
  next
    case False
    then have ch: "chunks_of 57 xs = take 57 xs # chunks_of 57 (drop 57 xs)"
      by (simp add: chunks_of.simps [of 57 xs])
    have IH: "length (concat (map b2a_base64 (chunks_of 57 (drop 57 xs)))) =
              4 * ((length xs - 57 + 2) div 3) + (length xs - 57 + 56) div 57"
      using "1" False by simp
    show ?thesis
    proof (cases "length xs \<le> 57")
      case True
      moreover from False have "0 < length xs" by simp
      ultimately have "(length xs + 56) div 57 = 1" by (rule div57_one)
      with True show ?thesis
        by (simp add: ch b2a_base64_def length_b2a_groups)
    next
      case long: False
      then obtain m where m: "length xs = m + 57" by (metis add.commute le_Suc_ex not_le less_imp_le_nat)
      have a: "(m + 57 + 2) div 3 = (m + 2) div 3 + 19"
      proof -
        have "m + 57 + 2 = (m + 2) + 3 * 19" by simp
        then show ?thesis by (simp only: div_mult_self1)
      qed
      have b: "(m + 57 + 56) div 57 = (m + 56) div 57 + 1"
      proof -
        have "m + 57 + 56 = (m + 56) + 57" by simp
        then show ?thesis by (simp only: div_add_self2)
      qed
      from IH m have "length (concat (map b2a_base64 (chunks_of 57 (drop 57 xs)))) =
              4 * ((m + 2) div 3) + (m + 56) div 57" by simp
      with long m a b show ?thesis
        by (simp add: ch b2a_base64_def length_b2a_groups)
    qed
  qed
qed

section \<open>The shape of the encoding\<close>

lemma b64_char_table: "map b64_char [0..<64] = b64_alphabet"
  by code_simp

lemma b64_char_alphabet: "b64_char n \<in> set b64_alphabet"
proof (cases "n < 64")
  case True
  then show ?thesis by (simp add: b64_char_table [symmetric])
next
  case False
  then have "b64_char n = b64_char 63" by (simp add: b64_char_def)
  moreover have "b64_char 63 \<in> set b64_alphabet"
    by (simp add: b64_char_table [symmetric])
  ultimately show ?thesis by simp
qed

lemma newline_not_alphabet: "CHR ''\<newline>'' \<notin> set (b64_alphabet @ ''='')"
  by (simp add: b64_alphabet_def)

lemma b2a_groups_alphabet: "set (b2a_groups xs) \<subseteq> set (b64_alphabet @ ''='')"
  by (induction xs rule: b2a_groups.induct) (auto simp: b64_char_alphabet)

lemma map_length_chunks_of:
  "0 < n \<Longrightarrow> map length (chunks_of n xs) =
     replicate (length xs div n) n @ (if length xs mod n = 0 then [] else [length xs mod n])"
proof (induction n xs rule: chunks_of.induct)
  case (1 n xs)
  show ?case
  proof (cases "xs = []")
    case False
    show ?thesis
    proof (cases "length xs < n")
      case True
      with False "1.prems" show ?thesis by (simp add: chunks_of.simps [of n xs])
    next
      case ge: False
      then have "length xs div n = Suc ((length xs - n) div n)" "length xs mod n = (length xs - n) mod n"
        using "1.prems" by (simp_all add: le_div_geq le_mod_geq)
      with False ge "1.prems" "1.IH" show ?thesis by (simp add: chunks_of.simps [of n xs])
    qed
  qed simp
qed

text \<open>
  The text \<open>encodebytes\<close> produces is made of newline-terminated lines: split at the
  newlines it gives one line of 76 characters per full 57-byte chunk, a shorter line
  of \<open>4 * ceil(r / 3)\<close> characters for a remainder of \<open>r\<close> bytes, and the empty
  piece after the last newline; every line is drawn from the RFC 4648 alphabet and
  the pad character.
\<close>

lemma encodebytes_lines:
  "\<exists>ls. py_split (encodebytes_raw s) ''\<newline>'' = Inr (ls @ [[]]) \<and>
        map length ls = replicate (length s div 57) 76 @
          (if length s mod 57 = 0 then [] else [4 * ((length s mod 57 + 2) div 3)]) \<and>
        set (concat ls) \<subseteq> set (b64_alphabet @ ''='')"
proof (intro exI conjI)
  let ?ls = "map b2a_groups (chunks_of MAXBINSIZE s)"
  have nl: "list_all (\<lambda>l. CHR ''\<newline>'' \<notin> set l) ?ls"
    using b2a_groups_alphabet newline_not_alphabet by (auto simp: list_all_iff)
  have "encodebytes_raw s = concat (map (\<lambda>l. l @ [CHR ''\<newline>'']) ?ls)"
    by (simp add: encodebytes_raw_def b2a_base64_def [abs_def] comp_def)
  then show "py_split (encodebytes_raw s) ''\<newline>'' = Inr (?ls @ [[]])"
    using split_at_sep_lines [OF nl] by (simp add: py_split_def)
  have "map length ?ls = map (\<lambda>l. 4 * ((l + 2) div 3)) (map length (chunks_of MAXBINSIZE s))"
    by (simp add: length_b2a_groups comp_def)
  then show "map length ?ls = replicate (length s div 57) 76 @
          (if length s mod 57 = 0 then [] else [4 * ((length s mod 57 + 2) div 3)])"
    by (simp add: map_length_chunks_of MAXBINSIZE_def)
  show "set (concat ?ls) \<subseteq> set (b64_alphabet @ ''='')"
    using b2a_groups_alphabet by auto
qed

section \<open>Decoding skips what is not base64\<close>

lemma a2b_loop_filter:
  "a2b_loop q lc pads (filter b64_significant s) acc = a2b_loop q lc pads s acc"
  by (induction s arbitrary: q lc pads acc) (auto simp: b64_significant_def split: option.splits)

lemma filter_significant_removeAll_newline:
  "filter b64_significant (removeAll CHR ''\<newline>'' t) = filter b64_significant t"
  by (induction t) (auto simp: b64_significant_def)

text \<open>
  \<open>decodebytes\<close> reads only the alphabet and the pad: removing every other character
  (line breaks, spaces, punctuation) from its input changes neither the bytes it
  returns nor the error it raises; the encoding of \<open>s\<close> with its line breaks
  removed still decodes to \<open>s\<close>.
\<close>

lemma decodebytes_skips_other_chars:
  "decodebytes (filter b64_significant t) = decodebytes t \<and>
   decodebytes (removeAll CHR ''\<newline>'' (encodebytes_raw s)) = Inr s"
proof
  show "decodebytes (filter b64_significant t) = decodebytes t"
    by (simp add: decodebytes_def a2b_base64_def a2b_loop_filter)
  have "filter b64_significant (removeAll CHR ''\<newline>'' (encodebytes_raw s)) =
        filter b64_significant (encodebytes_raw s)"
    by (simp add: filter_significant_removeAll_newline)
  then show "decodebytes (removeAll CHR ''\<newline>'' (encodebytes_raw s)) = Inr s"
    by (metis a2b_base64_def a2b_loop_filter decode_encode decodebytes_def)
qed

end
