(* ===== verification/CvLib.thy ===== *)
theory CvLib
  imports ArucoDict Base64
begin

text \<open>
  The interface between \<open>src/aruco_marker_detection/app.py\<close> and OpenCV. The script
  calls \<open>cv2.imread\<close> (an array, or \<open>None\<close> for an unreadable file), \<open>cv2.cvtColor\<close>, \<open>cv2.aruco.detectMarkers\<close>, \<open>cv2.aruco.drawDetectedMarkers\<close>,
  \<open>cv2.circle\<close> and \<open>cv2.putText\<close> on a NumPy image and hands the image to
  \<open>base64.encodestring\<close>, which sees it through \<open>memoryview\<close>. The library is not
  part of the repository, so it is a parameter: a record of functions over an abstract
  image type \<open>'img\<close>. Every theorem about the script holds for every library, unless it
  states what it assumes of one. The drawing functions mutate the image in place in
  Python; here they return the new image.

  \<open>detectMarkers\<close> returns, per detected marker, an array of four corner points
  (float32, so rationals here) and an array of ids that is \<open>None\<close> when nothing was
  found; the third result, the rejected candidates, is never used by the script and is
  left out.

  Two concrete instances serve the theorems that need one: \<open>trace_lib\<close>, whose image
  records the drawing calls made on it (what the annotator draws is read off it), and
  \<open>fixed_lib\<close>, a detector that finds the given markers under one dictionary only.
\<close>

type_synonym point = "rat \<times> rat"
type_synonym ipoint = "int \<times> int"
type_synonym colour = "int \<times> int \<times> int"

record det_result =
  det_corners :: "point list list"
  det_ids :: "int list option"

record 'img cv_lib =
  imread :: "string \<Rightarrow> 'img option"
  cvtColor_gray :: "'img \<Rightarrow> py_exc + 'img"
  detectMarkers :: "'img \<Rightarrow> aruco_dict \<Rightarrow> py_exc + det_result"
  drawDetectedMarkers :: "'img \<Rightarrow> point list list \<Rightarrow> 'img"
  cv_circle :: "'img \<Rightarrow> ipoint \<Rightarrow> int \<Rightarrow> colour \<Rightarrow> int \<Rightarrow> 'img"
  cv_putText :: "'img \<Rightarrow> string \<Rightarrow> ipoint \<Rightarrow> int \<Rightarrow> rat \<Rightarrow> colour \<Rightarrow> int \<Rightarrow> 'img"
  img_memoryview :: "'img \<Rightarrow> buffer"

text \<open>\<open>cv2.FONT_HERSHEY_SIMPLEX\<close>\<close>

definition FONT_HERSHEY_SIMPLEX :: int where
  "FONT_HERSHEY_SIMPLEX = 0"

text \<open>Whether a detection call found at least one marker (\<open>len(corners) > 0\<close>),
  and whether it returned normally with none.\<close>

definition finds_markers :: "'img cv_lib \<Rightarrow> 'img \<Rightarrow> aruco_dict \<Rightarrow> bool" where
  "finds_markers lib img d =
     (case detectMarkers lib img d of Inl _ \<Rightarrow> False | Inr r \<Rightarrow> 0 < length (det_corners r))"

definition no_markers :: "'img cv_lib \<Rightarrow> 'img \<Rightarrow> aruco_dict \<Rightarrow> bool" where
  "no_markers lib img d =
     (case detectMarkers lib img d of Inl _ \<Rightarrow> False | Inr r \<Rightarrow> det_corners r = [])"

text \<open>A library whose drawing functions keep the shape of the array they draw on
  (OpenCV draws in place, so the array keeps its dimensions).\<close>

definition draws_in_place :: "'img cv_lib \<Rightarrow> bool" where
  "draws_in_place lib \<longleftrightarrow>
     (\<forall>i cs. buf_ndim (img_memoryview lib (drawDetectedMarkers lib i cs)) = buf_ndim (img_memoryview lib i)) \<and>
     (\<forall>i c r col th. buf_ndim (img_memoryview lib (cv_circle lib i c r col th)) = buf_ndim (img_memoryview lib i)) \<and>
     (\<forall>i s p f sc col th. buf_ndim (img_memoryview lib (cv_putText lib i s p f sc col th)) =
                           buf_ndim (img_memoryview lib i))"

text \<open>What OpenCV documents of a detection result: each marker's corner array has
  four points, and the id array is \<open>None\<close> exactly when no marker was found and has
  one id per marker otherwise. A detector keeps this contract when every result it
  returns satisfies it.\<close>

definition det_wf :: "det_result \<Rightarrow> bool" where
  "det_wf r \<longleftrightarrow>
     list_all (\<lambda>c. length c = 4) (det_corners r) \<and>
     (case det_ids r of
        None \<Rightarrow> det_corners r = []
      | Some ids \<Rightarrow> det_corners r \<noteq> [] \<and> length ids = length (det_corners r))"

definition detector_wf :: "'img cv_lib \<Rightarrow> bool" where
  "detector_wf lib \<longleftrightarrow> (\<forall>i d r. detectMarkers lib i d = Inr r \<longrightarrow> det_wf r)"

section \<open>A recording instance\<close>

datatype draw_op =
    OpDrawMarkers "point list list"
  | OpCircle ipoint int colour int
  | OpPutText string ipoint int rat colour int

record trace_img =
  trace_view :: buffer
  trace_ops :: "draw_op list"

text \<open>An empty three-channel image, for the concrete instances.\<close>

definition blank_img :: trace_img where
  "blank_img = \<lparr>trace_view = \<lparr>buf_format = ''B'', buf_ndim = 3, buf_bytes = []\<rparr>, trace_ops = []\<rparr>"

text \<open>
  \<open>imread\<close> reads every path as the blank image. \<open>BGR2GRAY\<close> needs a three-channel image; the grey image is two-dimensional. The
  detector is a parameter; the drawing functions append the call to the image's log.
\<close>

definition trace_lib ::
  "(trace_img \<Rightarrow> aruco_dict \<Rightarrow> py_exc + det_result) \<Rightarrow> trace_img cv_lib" where
  "trace_lib det =
     \<lparr>imread = (\<lambda>_. Some blank_img),
      cvtColor_gray = (\<lambda>i. if buf_ndim (trace_view i) = 3
                           then Inr (i\<lparr>trace_view := (trace_view i)\<lparr>buf_ndim := 2\<rparr>\<rparr>)
                           else Inl CvError),
      detectMarkers = det,
      drawDetectedMarkers = (\<lambda>i cs. i\<lparr>trace_ops := trace_ops i @ [OpDrawMarkers cs]\<rparr>),
      cv_circle = (\<lambda>i c r col th. i\<lparr>trace_ops := trace_ops i @ [OpCircle c r col th]\<rparr>),
      cv_putText = (\<lambda>i s p f sc col th. i\<lparr>trace_ops := trace_ops i @ [OpPutText s p f sc col th]\<rparr>),
      img_memoryview = trace_view\<rparr>"

text \<open>A detector that sees the markers \<open>ms\<close> (corners and ids) under dictionary
  \<open>d0\<close> and nothing under any other.\<close>

definition fixed_detector ::
  "aruco_dict \<Rightarrow> (point list \<times> int) list \<Rightarrow> 'img \<Rightarrow> aruco_dict \<Rightarrow> py_exc + det_result" where
  "fixed_detector d0 ms img d =
     (if d = d0 \<and> ms \<noteq> [] then Inr \<lparr>det_corners = map fst ms, det_ids = Some (map snd ms)\<rparr>
      else Inr \<lparr>det_corners = [], det_ids = None\<rparr>)"

definition fixed_lib :: "aruco_dict \<Rightarrow> (point list \<times> int) list \<Rightarrow> trace_img cv_lib" where
  "fixed_lib d0 ms = trace_lib (fixed_detector d0 ms)"

text \<open>A square marker with the given id and corners \<open>(x, y)\<close> and \<open>(x + w, y + w)\<close>.\<close>

definition square_marker :: "rat \<Rightarrow> rat \<Rightarrow> rat \<Rightarrow> int \<Rightarrow> point list \<times> int" where
  "square_marker x y w i = ([(x, y), (x + w, y), (x + w, y + w), (x, y + w)], i)"

lemma finds_markers_fixed [simp]:
  "finds_markers (fixed_lib d0 ms) img d \<longleftrightarrow> d = d0 \<and> ms \<noteq> []"
  by (simp add: finds_markers_def fixed_lib_def trace_lib_def fixed_detector_def)

lemma no_markers_fixed [simp]:
  "no_markers (fixed_lib d0 ms) img d \<longleftrightarrow> d \<noteq> d0 \<or> ms = []"
  by (simp add: no_markers_def fixed_lib_def trace_lib_def fixed_detector_def)

lemma draws_in_place_trace [simp]: "draws_in_place (trace_lib det)"
  by (simp add: draws_in_place_def trace_lib_def)

lemma detector_wf_fixed:
  "list_all (\<lambda>m. length (fst m) = 4) ms \<Longrightarrow> detector_wf (fixed_lib d0 ms)"
  by (auto simp: detector_wf_def det_wf_def fixed_lib_def trace_lib_def fixed_detector_def
                 list_all_iff)

end
