(* ===== verification/FindType.thy ===== *)
theory FindType
  imports CvLib
begin

text \<open>
  The dictionary prober \<open>Aruco.findArucoTYPE\<close> (\<open>app.py\<close>, lines 35 to 56). The
  \<open>for\<close> loop over \<open>self.ARUCO_DICT.items()\<close> is \<open>probe_loop\<close>: it runs the
  detector under each dictionary in catalog order and returns at the first one under
  which a marker is found. Falling off the end of the loop returns Python's \<open>None\<close>
  (the option's \<open>None\<close> here); an exception raised by the detector is caught by the
  \<open>except\<close> clause, which returns \<open>(False, [])\<close>.

  \<open>probe_spec\<close> is the contract the spec states (the first catalog entry with a
  marker wins; a detector failure is reported as \<open>(False, [])\<close>), written with
  \<open>dropWhile\<close> over the catalog instead of a loop; the main lemma is that the loop
  implements it.
\<close>

fun probe_loop ::
  "'img cv_lib \<Rightarrow> 'img \<Rightarrow> (string \<times> aruco_dict) list \<Rightarrow> py_exc + (bool \<times> string list) option" where
  "probe_loop lib img [] = Inr None"
| "probe_loop lib img ((arucoName, arucoDict) # rest) =
     py_bind (detectMarkers lib img arucoDict)
       (\<lambda>r. if 0 < length (det_corners r) then Inr (Some (True, [arucoName]))
            else probe_loop lib img rest)"

definition findArucoTYPE :: "'img cv_lib \<Rightarrow> 'img \<Rightarrow> (bool \<times> string list) option" where
  "findArucoTYPE lib img =
     (case probe_loop lib img ARUCO_DICT of
        Inl _ \<Rightarrow> Some (False, [])
      | Inr r \<Rightarrow> r)"

definition probe_spec :: "'img cv_lib \<Rightarrow> 'img \<Rightarrow> (bool \<times> string list) option" where
  "probe_spec lib img =
     (case dropWhile (\<lambda>(n, d). no_markers lib img d) ARUCO_DICT of
        [] \<Rightarrow> None
      | (n, d) # _ \<Rightarrow> if finds_markers lib img d then Some (True, [n]) else Some (False, []))"

section \<open>The loop against the catalog scan\<close>

lemma probe_loop_dropWhile:
  "probe_loop lib img tbl =
     (case dropWhile (\<lambda>(n, d). no_markers lib img d) tbl of
        [] \<Rightarrow> Inr None
      | (n, d) # _ \<Rightarrow>
          (case detectMarkers lib img d of
             Inl e \<Rightarrow> Inl e
           | Inr r \<Rightarrow> Inr (Some (True, [n]))))"
proof (induction tbl)
  case Nil
  then show ?case by simp
next
  case (Cons entry tbl)
  obtain n d where entry: "entry = (n, d)" by (cases entry)
  show ?case
  proof (cases "detectMarkers lib img d")
    case (Inl e)
    then show ?thesis by (simp add: entry no_markers_def)
  next
    case (Inr r)
    with Cons.IH show ?thesis by (simp add: entry no_markers_def)
  qed
qed

lemma finds_markers_not_no_markers:
  "finds_markers lib img d \<Longrightarrow> \<not> no_markers lib img d"
  by (auto simp: finds_markers_def no_markers_def split: sum.splits)

lemma dropWhile_first_match:
  assumes "i < length xs" and "\<forall>j<i. P (xs ! j)" and "\<not> P (xs ! i)"
  shows "dropWhile P xs = drop i xs"
  using assms
proof (induction xs arbitrary: i)
  case Nil
  then show ?case by simp
next
  case (Cons x xs)
  show ?case
  proof (cases i)
    case 0
    with Cons.prems show ?thesis by simp
  next
    case (Suc k)
    with Cons.prems have "P x" and "k < length xs" and "\<forall>j<k. P (xs ! j)" and "\<not> P (xs ! k)"
      by auto
    with Cons.IH Suc show ?thesis by simp
  qed
qed

lemma dropWhile_all: "\<forall>x\<in>set xs. P x \<Longrightarrow> dropWhile P xs = []"
  by (induction xs) auto

text \<open>The outcome when the \<open>i\<close>-th entry is the first that does not return an
  empty detection.\<close>

lemma findArucoTYPE_at:
  assumes "i < length ARUCO_DICT"
    and "\<forall>j<i. no_markers lib img (snd (ARUCO_DICT ! j))"
    and "\<not> no_markers lib img (snd (ARUCO_DICT ! i))"
  shows "findArucoTYPE lib img =
           (case detectMarkers lib img (snd (ARUCO_DICT ! i)) of
              Inl _ \<Rightarrow> Some (False, [])
            | Inr _ \<Rightarrow> Some (True, [fst (ARUCO_DICT ! i)]))"
proof -
  let ?P = "\<lambda>(n, d). no_markers lib img d"
  from assms(2) have before: "\<forall>j<i. ?P (ARUCO_DICT ! j)"
    by (simp add: case_prod_beta)
  from assms(3) have at: "\<not> ?P (ARUCO_DICT ! i)"
    by (simp add: case_prod_beta)
  have "dropWhile ?P ARUCO_DICT = drop i ARUCO_DICT"
    by (rule dropWhile_first_match [OF assms(1) before at])
  also have "\<dots> = ARUCO_DICT ! i # drop (Suc i) ARUCO_DICT"
    using assms(1) by (rule Cons_nth_drop_Suc [symmetric])
  finally have dw: "dropWhile ?P ARUCO_DICT = ARUCO_DICT ! i # drop (Suc i) ARUCO_DICT" .
  obtain n d where nd: "ARUCO_DICT ! i = (n, d)" by (cases "ARUCO_DICT ! i")
  with dw show ?thesis
    by (simp add: findArucoTYPE_def probe_loop_dropWhile split: sum.splits)
qed

section \<open>Properties of the prober\<close>

text \<open>
  C3. \<open>findArucoTYPE\<close> implements the prober's contract: it returns \<open>None\<close> when no
  catalog entry yields a marker, and otherwise looks at the first entry that does not
  return an empty detection: \<open>(True, [name])\<close> if markers were found there,
  \<open>(False, [])\<close> if the detector raised.
\<close>

theorem findArucoTYPE_refines_spec: "findArucoTYPE lib img = probe_spec lib img"
proof (cases "dropWhile (\<lambda>(n, d). no_markers lib img d) ARUCO_DICT")
  case Nil
  then show ?thesis
    by (simp only: findArucoTYPE_def probe_spec_def probe_loop_dropWhile list.case sum.case)
next
  case (Cons entry rest)
  obtain n d where entry: "entry = (n, d)" by (cases entry)
  from Cons entry have nm: "\<not> no_markers lib img d"
    by (auto simp: dropWhile_eq_Cons_conv)
  show ?thesis
  proof (cases "detectMarkers lib img d")
    case (Inl e)
    with Cons entry show ?thesis
      by (simp add: findArucoTYPE_def probe_spec_def probe_loop_dropWhile finds_markers_def)
  next
    case (Inr r)
    with nm have "finds_markers lib img d"
      by (simp add: finds_markers_def no_markers_def)
    with Cons entry Inr show ?thesis
      by (simp add: findArucoTYPE_def probe_spec_def probe_loop_dropWhile)
  qed
qed

text \<open>
  C8. The first dictionary in catalog order under which the detector finds a marker
  wins: if every earlier entry returned an empty detection, the prober reports exactly
  that entry's name.
\<close>

theorem findArucoTYPE_first_match:
  assumes "i < length ARUCO_DICT"
    and "\<forall>j<i. no_markers lib img (snd (ARUCO_DICT ! j))"
    and "finds_markers lib img (snd (ARUCO_DICT ! i))"
  shows "findArucoTYPE lib img = Some (True, [fst (ARUCO_DICT ! i)])"
proof -
  from assms(3) have "\<not> no_markers lib img (snd (ARUCO_DICT ! i))"
    by (rule finds_markers_not_no_markers)
  with assms(1,2) have "findArucoTYPE lib img =
           (case detectMarkers lib img (snd (ARUCO_DICT ! i)) of
              Inl _ \<Rightarrow> Some (False, [])
            | Inr _ \<Rightarrow> Some (True, [fst (ARUCO_DICT ! i)]))"
    by (rule findArucoTYPE_at)
  with assms(3) show ?thesis
    by (auto simp: finds_markers_def split: sum.splits)
qed

lemma findArucoTYPE_first_match_witness:
  "5 < length ARUCO_DICT \<and>
   finds_markers (fixed_lib DICT_5X5_100 [square_marker 10 10 20 7]) blank_img
     (snd (ARUCO_DICT ! 5)) \<and>
   findArucoTYPE (fixed_lib DICT_5X5_100 [square_marker 10 10 20 7]) blank_img =
     Some (True, [''DICT_5X5_100''])"
proof -
  have h1: "5 < length ARUCO_DICT" by (simp add: ARUCO_DICT_def)
  have h2: "\<forall>j<5. no_markers (fixed_lib DICT_5X5_100 [square_marker 10 10 20 7]) blank_img
             (snd (ARUCO_DICT ! j))"
    by (simp add: ARUCO_DICT_def less_Suc_eq numeral_eq_Suc)
  have h3: "finds_markers (fixed_lib DICT_5X5_100 [square_marker 10 10 20 7]) blank_img
     (snd (ARUCO_DICT ! 5))"
    by (simp add: ARUCO_DICT_def numeral_eq_Suc)
  show ?thesis
    using h1 h3 findArucoTYPE_first_match [OF h1 h2 h3]
    by (simp add: ARUCO_DICT_def numeral_eq_Suc)
qed

text \<open>
  C12. On an image in which no catalog dictionary yields a marker, the prober falls off
  the end of its loop and returns \<open>None\<close>: neither the \<open>(False, [])\<close> nor the
  \<open>NoMarkersFound\<close> the spec leaves open.
\<close>

theorem findArucoTYPE_no_marker_None:
  assumes "\<forall>d. no_markers lib img d"
  shows "findArucoTYPE lib img = None"
proof -
  from assms have "dropWhile (\<lambda>(n, d). no_markers lib img d) ARUCO_DICT = []"
    by (auto intro: dropWhile_all)
  then show ?thesis
    by (simp only: findArucoTYPE_def probe_loop_dropWhile list.case sum.case)
qed

lemma findArucoTYPE_no_marker_None_witness:
  "(\<forall>d. no_markers (fixed_lib DICT_4X4_50 []) blank_img d) \<and>
   findArucoTYPE (fixed_lib DICT_4X4_50 []) blank_img = None"
proof -
  have h: "\<forall>d. no_markers (fixed_lib DICT_4X4_50 []) blank_img d" by simp
  show ?thesis using h findArucoTYPE_no_marker_None [OF h] by simp
qed

text \<open>
  C13. A detector failure is caught by the prober's \<open>except\<close> clause: if the first
  entry that does not return an empty detection raises, the prober returns
  \<open>(False, [])\<close>.
\<close>

theorem findArucoTYPE_detector_error:
  assumes "i < length ARUCO_DICT"
    and "\<forall>j<i. no_markers lib img (snd (ARUCO_DICT ! j))"
    and "detectMarkers lib img (snd (ARUCO_DICT ! i)) = Inl e"
  shows "findArucoTYPE lib img = Some (False, [])"
proof -
  from assms(3) have "\<not> no_markers lib img (snd (ARUCO_DICT ! i))"
    by (simp add: no_markers_def)
  with assms(1,2) have "findArucoTYPE lib img =
           (case detectMarkers lib img (snd (ARUCO_DICT ! i)) of
              Inl _ \<Rightarrow> Some (False, [])
            | Inr _ \<Rightarrow> Some (True, [fst (ARUCO_DICT ! i)]))"
    by (rule findArucoTYPE_at)
  with assms(3) show ?thesis by simp
qed

lemma findArucoTYPE_detector_error_witness:
  "0 < length ARUCO_DICT \<and>
   detectMarkers (trace_lib (\<lambda>_ _. Inl CvError)) blank_img (snd (ARUCO_DICT ! 0)) = Inl CvError \<and>
   findArucoTYPE (trace_lib (\<lambda>_ _. Inl CvError)) blank_img = Some (False, [])"
proof -
  have h1: "0 < length ARUCO_DICT" by (simp add: ARUCO_DICT_def)
  have h2: "\<forall>j<0. no_markers (trace_lib (\<lambda>_ _. Inl CvError)) blank_img (snd (ARUCO_DICT ! j))"
    by simp
  have h3: "detectMarkers (trace_lib (\<lambda>_ _. Inl CvError)) blank_img (snd (ARUCO_DICT ! 0)) =
            Inl CvError"
    by (simp add: trace_lib_def)
  show ?thesis using h1 h3 findArucoTYPE_detector_error [OF h1 h2 h3] by simp
qed

text \<open>
  C17. Whatever the detector does, a result of the prober is either
  \<open>(True, [name])\<close> for the OpenCV name of a dictionary under which markers were
  found, or \<open>(False, [])\<close>.
\<close>

theorem findArucoTYPE_result_shape:
  assumes "findArucoTYPE lib img = Some (b, ns)"
  shows "(b \<longrightarrow> (\<exists>d. ns = [cv_dict_name d] \<and> finds_markers lib img d)) \<and>
         (\<not> b \<longrightarrow> ns = [])"
proof (cases "dropWhile (\<lambda>(n, d). no_markers lib img d) ARUCO_DICT")
  case Nil
  with assms show ?thesis
    by (simp only: findArucoTYPE_def probe_loop_dropWhile list.case sum.case) simp
next
  case (Cons entry rest)
  obtain n d where entry: "entry = (n, d)" by (cases entry)
  from Cons entry have mem: "(n, d) \<in> set ARUCO_DICT"
    by (metis list.set_intros(1) set_dropWhileD)
  from Cons entry have nm: "\<not> no_markers lib img d"
    by (auto simp: dropWhile_eq_Cons_conv)
  from mem have name: "n = cv_dict_name d" by (rule ARUCO_DICT_entry_name)
  show ?thesis
  proof (cases "detectMarkers lib img d")
    case (Inl e)
    with assms Cons entry show ?thesis
      by (simp add: findArucoTYPE_def probe_loop_dropWhile)
  next
    case (Inr r)
    with nm have "finds_markers lib img d"
      by (simp add: finds_markers_def no_markers_def)
    with assms Cons entry Inr name show ?thesis
      by (auto simp: findArucoTYPE_def probe_loop_dropWhile)
  qed
qed

lemma findArucoTYPE_result_shape_witness:
  "findArucoTYPE (fixed_lib DICT_5X5_100 [square_marker 10 10 20 7]) blank_img =
     Some (True, [''DICT_5X5_100'']) \<and>
   (\<exists>d. [''DICT_5X5_100''] = [cv_dict_name d] \<and>
        finds_markers (fixed_lib DICT_5X5_100 [square_marker 10 10 20 7]) blank_img d)"
proof -
  have h: "findArucoTYPE (fixed_lib DICT_5X5_100 [square_marker 10 10 20 7]) blank_img =
             Some (True, [''DICT_5X5_100''])"
    by (simp add: findArucoTYPE_def ARUCO_DICT_def fixed_lib_def trace_lib_def
                  fixed_detector_def)
  show ?thesis using h findArucoTYPE_result_shape [OF h] by simp
qed

end
