(* ===== verification/FindMarkers.thy ===== *)
theory FindMarkers
  imports CvLib
begin

text \<open>
  The annotator \<open>Aruco.findArucoMarkers\<close> (\<open>app.py\<close>, lines 58 to 94). It converts
  the image to grey, resolves the dictionary \<open>DICT_{markerSize}X{markerSize}_{totalMarkers}\<close>
  by attribute lookup on \<open>cv2.aruco\<close>, detects markers on the grey image, optionally
  draws their outlines, and then enters a \<open>for\<close> loop over the markers whose body
  returns: only the first marker gets its centre dot and its id label, after which the
  whole image is base64-encoded with \<open>base64.encodestring\<close>. With no marker the
  function falls through its \<open>if\<close> and returns \<open>None\<close>; any exception gives
  \<open>(False, "Internal error")\<close>.

  The OpenCV drawing calls mutate the caller's NumPy array in place, so the model
  returns, beside the Python return value, the caller's image as the call leaves it
  (also when an exception interrupts the call). The keyword arguments are Python values
  formatted by the f-string: an \<open>int\<close> by \<open>str()\<close>, a \<open>str\<close> as it is.
\<close>

datatype pyarg = PyInt int | PyStr string

fun py_format :: "pyarg \<Rightarrow> string" where
  "py_format (PyInt i) = py_str_int i"
| "py_format (PyStr s) = s"

text \<open>\<open>f'DICT_{markerSize}X{markerSize}_{totalMarkers}'\<close>\<close>

definition marker_key :: "pyarg \<Rightarrow> pyarg \<Rightarrow> string" where
  "marker_key markerSize totalMarkers =
     ''DICT_'' @ py_format markerSize @ ''X'' @ py_format markerSize @ ''_'' @ py_format totalMarkers"

text \<open>The second component of the returned pair: the base64 \<open>bytes\<close> or a message.\<close>

datatype resp = RespBytes string | RespStr string

definition internal_error :: resp where
  "internal_error = RespStr ''Internal error''"

text \<open>\<open>markerCorner.reshape((4, 2))\<close>: four points, or ValueError.\<close>

definition reshape_4x2 :: "point list \<Rightarrow> py_exc + point \<times> point \<times> point \<times> point" where
  "reshape_4x2 c = (case c of [p0, p1, p2, p3] \<Rightarrow> Inr (p0, p1, p2, p3) | _ \<Rightarrow> Inl ValueError)"

text \<open>\<open>(int(p[0]), int(p[1]))\<close>\<close>

definition int_point :: "point \<Rightarrow> ipoint" where
  "int_point p = (py_int_of_float (fst p), py_int_of_float (snd p))"

text \<open>\<open>cX = int((topLeft[0] + bottomRight[0]) / 2.0)\<close>, and \<open>cY\<close> alike.\<close>

definition marker_center :: "ipoint \<Rightarrow> ipoint \<Rightarrow> ipoint" where
  "marker_center topLeft bottomRight =
     (py_int_of_float (of_int (fst topLeft + fst bottomRight) / 2),
      py_int_of_float (of_int (snd topLeft + snd bottomRight) / 2))"

text \<open>
  The loop body, on the first marker: the returned image is the one after the circle
  and the label are drawn. The remaining markers \<open>rest\<close> are never looked at: the body
  returns in its first iteration.
\<close>

fun annotate_loop ::
  "'img cv_lib \<Rightarrow> 'img \<Rightarrow> (point list \<times> int) list \<Rightarrow> (py_exc + (bool \<times> resp) option) \<times> 'img" where
  "annotate_loop lib img [] = (Inr None, img)"
| "annotate_loop lib img ((markerCorner, markerID) # rest) =
     (case reshape_4x2 markerCorner of
        Inl e \<Rightarrow> (Inl e, img)
      | Inr (tlf, trf, brf, blf) \<Rightarrow>
          (let topRight = int_point trf; bottomRight = int_point brf;
               bottomLeft = int_point blf; topLeft = int_point tlf;
               c = marker_center topLeft bottomRight;
               img1 = cv_circle lib img c 4 (0, 0, 255) (-1);
               img2 = cv_putText lib img1 (py_str_int markerID) (fst topLeft, snd topLeft - 15)
                        FONT_HERSHEY_SIMPLEX (1 / 2) (0, 255, 0) 2
           in (py_bind (encodestring (img_memoryview lib img2))
                 (\<lambda>image_64_encode. Inr (Some (True, RespBytes image_64_encode))), img2)))"

text \<open>The \<open>try\<close> body, then the \<open>except\<close> clause.\<close>

definition findArucoMarkers_body ::
  "'img cv_lib \<Rightarrow> 'img \<Rightarrow> pyarg \<Rightarrow> pyarg \<Rightarrow> bool \<Rightarrow> (py_exc + (bool \<times> resp) option) \<times> 'img" where
  "findArucoMarkers_body lib img markerSize totalMarkers draw =
     (case cvtColor_gray lib img of
        Inl e \<Rightarrow> (Inl e, img)
      | Inr gray \<Rightarrow>
          (case aruco_getattr (marker_key markerSize totalMarkers) of
             Inl e \<Rightarrow> (Inl e, img)
           | Inr key \<Rightarrow>
               (case detectMarkers lib gray key of
                  Inl e \<Rightarrow> (Inl e, img)
                | Inr r \<Rightarrow>
                    (let img1 = (if draw then drawDetectedMarkers lib img (det_corners r) else img)
                     in if 0 < length (det_corners r) then
                          (case det_ids r of
                             None \<Rightarrow> (Inl AttributeError, img1)
                           | Some ids \<Rightarrow> annotate_loop lib img1 (zip (det_corners r) ids))
                        else (Inr None, img1)))))"

definition py_except_internal ::
  "(py_exc + (bool \<times> resp) option) \<times> 'img \<Rightarrow> (bool \<times> resp) option \<times> 'img" where
  "py_except_internal r =
     (case r of (Inl _, i) \<Rightarrow> (Some (False, internal_error), i) | (Inr v, i) \<Rightarrow> (v, i))"

definition findArucoMarkers ::
  "'img cv_lib \<Rightarrow> 'img \<Rightarrow> pyarg \<Rightarrow> pyarg \<Rightarrow> bool \<Rightarrow> (bool \<times> resp) option \<times> 'img" where
  "findArucoMarkers lib img markerSize totalMarkers draw =
     py_except_internal (findArucoMarkers_body lib img markerSize totalMarkers draw)"

text \<open>The defaults \<open>markerSize=4, totalMarkers=250, draw=True\<close>.\<close>

definition findArucoMarkers_default :: "'img cv_lib \<Rightarrow> 'img \<Rightarrow> (bool \<times> resp) option \<times> 'img" where
  "findArucoMarkers_default lib img = findArucoMarkers lib img (PyInt 4) (PyInt 250) True"

section \<open>Facts about the annotator\<close>

text \<open>Truncating division by two: within one half of the quotient, rounded towards zero.\<close>

lemma sdiv2_trunc: "\<bar>k - 2 * (k sdiv 2)\<bar> \<le> 1 \<and> 2 * \<bar>k sdiv (2::int)\<bar> \<le> \<bar>k\<bar>"
  by (auto simp: signed_divide_int_def sgn_if abs_if)

lemma marker_center_sdiv:
  "marker_center p q = ((fst p + fst q) sdiv 2, (snd p + snd q) sdiv 2)"
  by (simp only: marker_center_def py_int_of_float_half)

lemma reshape_4x2_four [simp]: "reshape_4x2 [a, b, c, d] = Inr (a, b, c, d)"
  by (simp add: reshape_4x2_def)

lemma annotate_loop_no_success:
  assumes "draws_in_place lib" and "buf_ndim (img_memoryview lib img) \<noteq> 1"
  shows "fst (annotate_loop lib img ms) \<noteq> Inr (Some r)"
proof (cases ms)
  case Nil
  then show ?thesis by simp
next
  case (Cons m rest)
  obtain mc mid where m: "m = (mc, mid)" by (cases m)
  show ?thesis
  proof (cases "reshape_4x2 mc")
    case (Inl e)
    with Cons m show ?thesis by simp
  next
    case (Inr q)
    obtain a b c d where q: "q = (a, b, c, d)" by (cases q)
    from assms(1) have dc: "buf_ndim (img_memoryview lib (cv_circle lib i c' r' col th)) =
                            buf_ndim (img_memoryview lib i)"
      and dp: "buf_ndim (img_memoryview lib (cv_putText lib i s p f sc col th)) =
               buf_ndim (img_memoryview lib i)" for i c' r' col th s p f sc
      unfolding draws_in_place_def by blast+
    with assms(2) Cons m Inr q show ?thesis
      by (simp add: Let_def encodestring_ndim)
  qed
qed

lemma findArucoMarkers_not_true:
  assumes "draws_in_place lib" and "buf_ndim (img_memoryview lib img) \<noteq> 1"
  shows "fst (findArucoMarkers lib img ms tm draw) \<in> {None, Some (False, internal_error)}"
proof -
  have "fst (findArucoMarkers_body lib img ms tm draw) \<notin> Inr ` Some ` UNIV"
  proof -
    have nd: "buf_ndim (img_memoryview lib (if draw then drawDetectedMarkers lib img cs else img)) \<noteq> 1"
      for cs using assms by (simp add: draws_in_place_def)
    show ?thesis
      using annotate_loop_no_success [OF assms(1) nd]
      by (auto simp: findArucoMarkers_body_def Let_def split: sum.splits option.splits)
  qed
  then show ?thesis
    by (auto simp: findArucoMarkers_def py_except_internal_def split: prod.splits sum.splits)
qed

text \<open>A failing dictionary lookup ends the annotator in its \<open>except\<close> clause before
  anything is drawn.\<close>

lemma findArucoMarkers_getattr_error:
  "aruco_getattr (marker_key ms tm) = Inl e \<Longrightarrow>
   findArucoMarkers lib img ms tm draw = (Some (False, internal_error), img)"
  by (simp add: findArucoMarkers_def findArucoMarkers_body_def py_except_internal_def
           split: sum.splits)

text \<open>The key the annotator looks up for a size given as a string and the default
  \<open>totalMarkers=250\<close>.\<close>

lemma marker_key_250: "marker_key (PyStr a) (PyInt 250) = ''DICT_'' @ a @ ''X'' @ a @ ''_250''"
proof -
  have "py_str_int 250 = ''250''" by code_simp
  then show ?thesis by (simp add: marker_key_def)
qed

lemma marker_center_spec_example: "marker_center (10, 10) (30, 30) = (20, 20)"
  by (simp add: marker_center_sdiv signed_divide_int_def)

section \<open>Properties of the annotator\<close>

text \<open>
  C18. The centre dot is the midpoint of the top-left to bottom-right diagonal, as
  \<open>int()\<close> rounds it: for each coordinate, twice the centre differs from the sum of
  the two corners' coordinates by at most one, and the centre is rounded towards zero
  (twice its magnitude never exceeds the magnitude of the sum), so the spec's example,
  corners \<open>(10, 10)\<close> and \<open>(30, 30)\<close>, gives exactly \<open>(20, 20)\<close>, and
  \<open>(-3, -3)\<close> with \<open>(0, 0)\<close> gives \<open>(-1, -1)\<close>, not the floor \<open>(-2, -2)\<close>.
\<close>

theorem marker_center_midpoint:
  "\<bar>(fst tl0 + fst br0) - 2 * fst (marker_center tl0 br0)\<bar> \<le> 1 \<and>
   2 * \<bar>fst (marker_center tl0 br0)\<bar> \<le> \<bar>fst tl0 + fst br0\<bar> \<and>
   \<bar>(snd tl0 + snd br0) - 2 * snd (marker_center tl0 br0)\<bar> \<le> 1 \<and>
   2 * \<bar>snd (marker_center tl0 br0)\<bar> \<le> \<bar>snd tl0 + snd br0\<bar>"
  using sdiv2_trunc [of "fst tl0 + fst br0"] sdiv2_trunc [of "snd tl0 + snd br0"]
  by (simp add: marker_center_sdiv)

text \<open>
  C7. Only the first detected marker is annotated: whatever the number of markers, the
  annotator draws all outlines, then one centre dot (radius 4, red, filled) and one id
  label (15 pixels above the top-left corner) for the first marker, and nothing for
  the others, because the loop body returns in its first iteration.
\<close>

theorem findArucoMarkers_first_marker_only:
  assumes "markers = (c0, id0) # others" and "length c0 = 4"
    and "aruco_getattr (marker_key ms tm) = Inr d"
    and "buf_ndim (trace_view img) = 3"
  shows "trace_ops (snd (findArucoMarkers (fixed_lib d markers) img ms tm True)) =
           trace_ops img @
           [OpDrawMarkers (map fst markers),
            OpCircle (marker_center (int_point (c0 ! 0)) (int_point (c0 ! 2))) 4 (0, 0, 255) (-1),
            OpPutText (py_str_int id0) (fst (int_point (c0 ! 0)), snd (int_point (c0 ! 0)) - 15)
              FONT_HERSHEY_SIMPLEX (1 / 2) (0, 255, 0) 2]"
proof -
  from assms(2) obtain a b c e where c0: "c0 = [a, b, c, e]"
    by (auto simp: numeral_eq_Suc length_Suc_conv)
  show ?thesis
    using assms(1,3,4) c0
    by (simp add: findArucoMarkers_def findArucoMarkers_body_def py_except_internal_def
                  fixed_lib_def trace_lib_def fixed_detector_def Let_def split: sum.splits)
qed

lemma findArucoMarkers_first_marker_only_witness:
  "[square_marker 10 10 20 7, square_marker 50 50 10 9] =
     (fst (square_marker 10 10 20 7), 7) # [square_marker 50 50 10 9] \<and>
   length (fst (square_marker 10 10 20 7)) = 4 \<and>
   aruco_getattr (marker_key (PyInt 4) (PyInt 250)) = Inr DICT_4X4_250 \<and>
   buf_ndim (trace_view blank_img) = 3 \<and>
   trace_ops (snd (findArucoMarkers (fixed_lib DICT_4X4_250 [square_marker 10 10 20 7, square_marker 50 50 10 9])
      blank_img (PyInt 4) (PyInt 250) True)) =
     [OpDrawMarkers [fst (square_marker 10 10 20 7), fst (square_marker 50 50 10 9)],
      OpCircle (20, 20) 4 (0, 0, 255) (-1),
      OpPutText ''7'' (10, -5) FONT_HERSHEY_SIMPLEX (1 / 2) (0, 255, 0) 2]"
proof -
  have h1: "[square_marker 10 10 20 7, square_marker 50 50 10 9] =
     (fst (square_marker 10 10 20 7), 7) # [square_marker 50 50 10 9]"
    by (simp add: square_marker_def)
  have h2: "length (fst (square_marker 10 10 20 7)) = 4"
    by (simp add: square_marker_def)
  have h3: "aruco_getattr (marker_key (PyInt 4) (PyInt 250)) = Inr DICT_4X4_250"
    by code_simp
  have h4: "buf_ndim (trace_view blank_img) = 3"
    by (simp add: blank_img_def)
  show ?thesis
    using h1 h2 h3 h4 findArucoMarkers_first_marker_only [OF h1 h2 h3 h4]
    by (simp add: square_marker_def blank_img_def marker_center_def int_point_def
                  py_int_of_float_def py_str_int_def, code_simp)
qed

text \<open>
  C4. The annotator never returns an encoded image for a NumPy image: when the image
  array is not one-dimensional (an OpenCV image has two or three) and drawing keeps its
  shape, \<open>base64.encodestring\<close> rejects it with TypeError, so the result is
  \<open>None\<close> or \<open>(False, "Internal error")\<close>, never \<open>(True, data)\<close>.
\<close>

theorem findArucoMarkers_never_encodes:
  assumes "draws_in_place lib" and "buf_ndim (img_memoryview lib img) \<noteq> 1"
  shows "fst (findArucoMarkers lib img ms tm draw) \<noteq> Some (True, r)"
  using findArucoMarkers_not_true [OF assms, of ms tm draw] by auto

lemma findArucoMarkers_never_encodes_witness:
  "draws_in_place (fixed_lib DICT_4X4_250 [square_marker 10 10 20 7]) \<and>
   buf_ndim (img_memoryview (fixed_lib DICT_4X4_250 [square_marker 10 10 20 7]) blank_img) \<noteq> 1 \<and>
   fst (findArucoMarkers (fixed_lib DICT_4X4_250 [square_marker 10 10 20 7]) blank_img
          (PyInt 4) (PyInt 250) True) \<noteq> Some (True, RespBytes [])"
proof -
  have h1: "draws_in_place (fixed_lib DICT_4X4_250 [square_marker 10 10 20 7])"
    by (simp add: fixed_lib_def)
  have h2: "buf_ndim (img_memoryview (fixed_lib DICT_4X4_250 [square_marker 10 10 20 7]) blank_img) \<noteq> 1"
    by (simp add: fixed_lib_def trace_lib_def blank_img_def)
  show ?thesis using h1 h2 findArucoMarkers_never_encodes [OF h1 h2] by blast
qed

text \<open>
  C14. A \<open>(markerSize, totalMarkers)\<close> pair that names no catalog dictionary is a
  configuration error: the attribute lookup raises, the annotator returns
  \<open>(False, "Internal error")\<close> and leaves the image untouched.
\<close>

theorem findArucoMarkers_bad_key:
  assumes "marker_key ms tm \<notin> set (map fst ARUCO_DICT)"
  shows "findArucoMarkers lib img ms tm draw = (Some (False, internal_error), img)"
  using findArucoMarkers_getattr_error [OF aruco_getattr_other [OF assms]] .

lemma findArucoMarkers_bad_key_witness:
  "marker_key (PyInt 3) (PyInt 50) \<notin> set (map fst ARUCO_DICT) \<and>
   findArucoMarkers (fixed_lib DICT_4X4_50 []) blank_img (PyInt 3) (PyInt 50) True =
     (Some (False, internal_error), blank_img)"
proof -
  have h: "marker_key (PyInt 3) (PyInt 50) \<notin> set (map fst ARUCO_DICT)"
    by code_simp
  show ?thesis
    using h findArucoMarkers_bad_key [OF h, where lib = "fixed_lib DICT_4X4_50 []" and img = blank_img
                                      and draw = True]
    by (rule conjI)
qed

text \<open>
  C15. When the detector finds no marker, the annotator falls through its
  \<open>if len(corners) > 0\<close> and returns \<open>None\<close>, a case its contract does not cover.
\<close>

theorem findArucoMarkers_no_markers:
  assumes "cvtColor_gray lib img = Inr g" and "aruco_getattr (marker_key ms tm) = Inr d"
    and "detectMarkers lib g d = Inr r" and "det_corners r = []"
  shows "fst (findArucoMarkers lib img ms tm draw) = None"
  using assms
  by (simp add: findArucoMarkers_def findArucoMarkers_body_def py_except_internal_def Let_def)

lemma findArucoMarkers_no_markers_witness:
  "cvtColor_gray (fixed_lib DICT_4X4_250 []) blank_img =
     Inr (blank_img\<lparr>trace_view := (trace_view blank_img)\<lparr>buf_ndim := 2\<rparr>\<rparr>) \<and>
   aruco_getattr (marker_key (PyInt 4) (PyInt 250)) = Inr DICT_4X4_250 \<and>
   detectMarkers (fixed_lib DICT_4X4_250 []) (blank_img\<lparr>trace_view := (trace_view blank_img)\<lparr>buf_ndim := 2\<rparr>\<rparr>)
     DICT_4X4_250 = Inr \<lparr>det_corners = [], det_ids = None\<rparr> \<and>
   det_corners \<lparr>det_corners = [], det_ids = None\<rparr> = [] \<and>
   fst (findArucoMarkers (fixed_lib DICT_4X4_250 []) blank_img (PyInt 4) (PyInt 250) True) = None"
proof -
  have h1: "cvtColor_gray (fixed_lib DICT_4X4_250 []) blank_img =
     Inr (blank_img\<lparr>trace_view := (trace_view blank_img)\<lparr>buf_ndim := 2\<rparr>\<rparr>)"
    by (simp add: fixed_lib_def trace_lib_def blank_img_def)
  have h2: "aruco_getattr (marker_key (PyInt 4) (PyInt 250)) = Inr DICT_4X4_250"
    by code_simp
  have h3: "detectMarkers (fixed_lib DICT_4X4_250 []) (blank_img\<lparr>trace_view := (trace_view blank_img)\<lparr>buf_ndim := 2\<rparr>\<rparr>)
     DICT_4X4_250 = Inr \<lparr>det_corners = [], det_ids = None\<rparr>"
    by (simp add: fixed_lib_def trace_lib_def fixed_detector_def)
  have h4: "det_corners \<lparr>det_corners = [], det_ids = None\<rparr> = []" by simp
  show ?thesis using h1 h2 h3 h4 findArucoMarkers_no_markers [OF h1 h2 h3 h4] by blast
qed

end
