(* ===== verification/FindAruco.thy ===== *)
theory FindAruco
  imports FindType FindMarkers
begin

text \<open>
  The driver \<open>Aruco.findAruco\<close> (\<open>app.py\<close>, lines 96 to 128) and the module's
  top-level statements (lines 131 to 135). The driver reads the image with
  \<open>cv2.imread\<close> and then runs a \<open>while True\<close> loop written for a video capture: each
  iteration calls \<open>cap.read()\<close>, stops when it fails, probes the frame with
  \<open>findArucoTYPE\<close>, derives the marker size from the dictionary's name, annotates the
  frame with \<open>findArucoMarkers(img, size)\<close> and stops when \<open>waitKey\<close> reports the
  key \<open>^\<close> (94). After the loop it returns \<open>(True, resp, 200)\<close>; an early failure
  returns \<open>(False, "Internal error", 500)\<close>, and any exception the two-element tuple
  \<open>(False, "Internal error")\<close>.

  The loop is modelled over any capture object: a record of its \<open>read\<close> and
  \<open>release\<close> methods and of \<open>cv2.waitKey\<close>, over a world \<open>'w\<close> that holds the
  capture's and the GUI's state. \<open>read\<close> gives the next frame, or \<open>None\<close> for
  \<open>(False, None)\<close>. A capture may deliver frames for ever, so the loop is a
  \<open>partial_function (option)\<close>: \<open>None\<close> is a run that does not stop. The locals
  \<open>size\<close> and \<open>resp\<close> persist across iterations and may be unbound (\<open>None\<close>).
  The program as written passes the object \<open>cv2.imread\<close> returns, a NumPy array or
  \<open>None\<close>; neither has a \<open>read\<close> method.
\<close>

section \<open>Values and the capture interface\<close>

datatype find_ret = Ret3 bool resp int | Ret2 bool resp

record ('w, 'img) capture =
  cap_read :: "'w \<Rightarrow> py_exc + 'w \<times> 'img option"
  cap_release :: "'w \<Rightarrow> py_exc + 'w"
  cv_waitKey :: "'w \<Rightarrow> 'w \<times> int"

datatype 'w loop_exit = Break 'w "resp option" | Return find_ret

text \<open>\<open>size = (types[0].split("_")[1]).split("X")[0]\<close>\<close>

definition derive_size :: "string \<Rightarrow> py_exc + string" where
  "derive_size name =
     py_bind (py_split name ''_'') (\<lambda>ps. py_bind (py_index ps 1) (\<lambda>p.
     py_bind (py_split p ''X'') (\<lambda>qs. py_index qs 0)))"

text \<open>\<open>k = cv2.waitKey(30) & 0xff\<close>, on Python's unbounded integers.\<close>

definition key_code :: "int \<Rightarrow> int" where
  "key_code k = and k 255"

section \<open>The loop\<close>

text \<open>
  One iteration, from \<open>success, img = cap.read()\<close> to the key test: it leaves the
  loop (\<open>Exit\<close>: an exception, a \<open>break\<close> or a \<open>return\<close>) or goes on with the
  world and the locals \<open>size\<close> and \<open>resp\<close> it leaves (\<open>Next\<close>). Unpacking \<open>None\<close>
  (a fall-through return of either method) raises TypeError; calling
  \<open>findArucoMarkers(img, size)\<close> with \<open>size\<close> unbound raises UnboundLocalError.
\<close>

datatype ('e, 'w) iteration = Exit "'e + 'w loop_exit" | Next 'w "string option" "resp option"

definition loop_body ::
  "'img cv_lib \<Rightarrow> ('w, 'img) capture \<Rightarrow> 'w \<Rightarrow> string option \<Rightarrow> resp option
   \<Rightarrow> (py_exc, 'w) iteration" where
  "loop_body lib cap w size_var resp =
     (case cap_read cap w of
        Inl e \<Rightarrow> Exit (Inl e)
      | Inr (w1, None) \<Rightarrow> Exit (Inr (Break w1 resp))
      | Inr (w1, Some img) \<Rightarrow>
          (case findArucoTYPE lib img of
             None \<Rightarrow> Exit (Inl TypeError)
           | Some (status, types) \<Rightarrow>
               if \<not> status then Exit (Inr (Return (Ret3 False internal_error 500)))
               else
                 (case (if types \<noteq> [] then map_sum id Some (derive_size (hd types)) else Inr size_var) of
                    Inl e \<Rightarrow> Exit (Inl e)
                  | Inr None \<Rightarrow> Exit (Inl UnboundLocalError)
                  | Inr (Some size1) \<Rightarrow>
                      (case fst (findArucoMarkers lib img (PyStr size1) (PyInt 250) True) of
                         None \<Rightarrow> Exit (Inl TypeError)
                       | Some (status2, resp2) \<Rightarrow>
                           if \<not> status2 then Exit (Inr (Return (Ret3 False internal_error 500)))
                           else
                             (let (w2, k) = cv_waitKey cap w1 in
                              if key_code k = 94 then Exit (Inr (Break w2 (Some resp2)))
                              else Next w2 (Some size1) (Some resp2))))))"

text \<open>The \<open>while True\<close> loop repeats the iteration until it leaves.\<close>

partial_function (option) find_loop ::
  "'img cv_lib \<Rightarrow> ('w, 'img) capture \<Rightarrow> 'w \<Rightarrow> string option \<Rightarrow> resp option
   \<Rightarrow> (py_exc + 'w loop_exit) option" where
  "find_loop lib cap w size_var resp =
     (case loop_body lib cap w size_var resp of
        Exit r \<Rightarrow> Some r
      | Next w2 size2 resp2 \<Rightarrow> find_loop lib cap w2 size2 resp2)"

declare find_loop.simps [code]

text \<open>After the loop: \<open>cap.release()\<close>, then \<open>return True, resp, 200\<close>; the
  \<open>except\<close> clause turns any exception into the two-element tuple.\<close>

definition findAruco_with ::
  "'img cv_lib \<Rightarrow> ('w, 'img) capture \<Rightarrow> 'w \<Rightarrow> find_ret option" where
  "findAruco_with lib cap w0 =
     map_option
       (\<lambda>r. case r of
              Inl _ \<Rightarrow> Ret2 False internal_error
            | Inr (Return v) \<Rightarrow> v
            | Inr (Break w resp) \<Rightarrow>
                (case cap_release cap w of
                   Inl _ \<Rightarrow> Ret2 False internal_error
                 | Inr _ \<Rightarrow>
                     (case resp of
                        None \<Rightarrow> Ret2 False internal_error
                      | Some v \<Rightarrow> Ret3 True v 200)))
       (find_loop lib cap w0 None None)"

section \<open>The program as written\<close>

text \<open>\<open>cv2.imread\<close> returns a NumPy array or \<open>None\<close>; attribute lookup of
  \<open>read\<close> or \<open>release\<close> on either raises AttributeError.\<close>

datatype 'img imread_obj = NdArrayObj 'img | NoneObj

definition imread_capture :: "('img imread_obj, 'img) capture" where
  "imread_capture =
     \<lparr>cap_read = (\<lambda>_. Inl AttributeError),
      cap_release = (\<lambda>_. Inl AttributeError),
      cv_waitKey = (\<lambda>w. (w, -1))\<rparr>"

definition findAruco :: "'img cv_lib \<Rightarrow> string \<Rightarrow> find_ret option" where
  "findAruco lib path =
     findAruco_with lib imread_capture
       (case imread lib path of None \<Rightarrow> NoneObj | Some a \<Rightarrow> NdArrayObj a)"

text \<open>\<open>status, response, code = aruco_obj.findAruco(...)\<close> on the literal path
  \<open>images\<close>, backslash, \<open>padded.png\<close> (the backslash before \<open>p\<close> is no escape
  and stays in the string); unpacking a two-element tuple into three names raises
  ValueError, which nothing catches.\<close>

definition image_path :: string where
  "image_path = ''images'' @ [char_of (92 :: nat)] @ ''padded.png''"

definition module_main :: "'img cv_lib \<Rightarrow> (py_exc + bool \<times> resp \<times> int) option" where
  "module_main lib =
     map_option
       (\<lambda>r. case r of Ret3 status response code \<Rightarrow> Inr (status, response, code)
                    | Ret2 _ _ \<Rightarrow> Inl ValueError)
       (findAruco lib image_path)"

section \<open>Concrete captures\<close>

text \<open>
  A capture that plays a finite list of frames and a list of key presses (\<open>waitKey\<close>
  returns -1 when no key is pressed), as \<open>cv2.VideoCapture\<close> on a file would; and a
  hypothetical library whose images are one-dimensional byte arrays, the only kind
  \<open>encodestring\<close> accepts.
\<close>

definition list_capture :: "('img list \<times> int list, 'img) capture" where
  "list_capture =
     \<lparr>cap_read = (\<lambda>(fs, ks). case fs of [] \<Rightarrow> Inr ((fs, ks), None) | f # fs' \<Rightarrow> Inr ((fs', ks), Some f)),
      cap_release = Inr,
      cv_waitKey = (\<lambda>(fs, ks). case ks of [] \<Rightarrow> ((fs, ks), -1) | k # ks' \<Rightarrow> ((fs, ks'), k))\<rparr>"

definition flat_img :: trace_img where
  "flat_img = \<lparr>trace_view = \<lparr>buf_format = ''B'', buf_ndim = 1, buf_bytes = [104, 105]\<rparr>, trace_ops = []\<rparr>"

definition flat_lib :: "aruco_dict \<Rightarrow> (point list \<times> int) list \<Rightarrow> trace_img cv_lib" where
  "flat_lib d0 ms = (fixed_lib d0 ms)\<lparr>cvtColor_gray := Inr\<rparr>"

text \<open>A live camera (\<open>cv2.VideoCapture(0)\<close>) filming a still scene: every
  \<open>read\<close> delivers the same frame; the world is the list of keys the user will
  press, one per \<open>waitKey\<close> call, and \<open>waitKey\<close> returns -1 once it is empty.\<close>

definition steady_capture :: "'img \<Rightarrow> (int list, 'img) capture" where
  "steady_capture img =
     \<lparr>cap_read = (\<lambda>ks. Inr (ks, Some img)), cap_release = Inr,
      cv_waitKey = (\<lambda>ks. case ks of [] \<Rightarrow> ([], -1) | k # ks' \<Rightarrow> (ks', k))\<rparr>"

section \<open>Facts about the loop\<close>

text \<open>The size parse on a name with its parts: the piece after the first underscore
  is cut at its first \<open>X\<close>.\<close>

lemma derive_size_parts:
  assumes "CHR ''_'' \<notin> set p" and "CHR ''_'' \<notin> set a" and "CHR ''X'' \<notin> set a" and "CHR ''_'' \<notin> set r"
  shows "derive_size (p @ ''_'' @ a @ ''X'' @ r @ ''_'' @ q) = Inr a"
proof -
  have "CHR ''_'' \<notin> set (a @ ''X'' @ r)" using assms(2,4) by simp
  then have s1: "split_at_sep ''_'' (p @ CHR ''_'' # a @ CHR ''X'' # r @ CHR ''_'' # q) =
                 p # (a @ CHR ''X'' # r) # split_at_sep ''_'' q"
    using assms(1) split_at_sep_single_append [of "CHR ''_''" p]
          split_at_sep_single_append [of "CHR ''_''" "a @ ''X'' @ r" q]
    by simp
  have s2: "split_at_sep ''X'' (a @ CHR ''X'' # r) = a # split_at_sep ''X'' r"
    using assms(3) split_at_sep_single_append [of "CHR ''X''" a r] by simp
  show ?thesis by (simp add: derive_size_def py_split_def s1 s2)
qed

text \<open>The five fixed-layout dictionaries (the ArUco original and the AprilTag
  families) name no grid size: the parsed size gives a key outside the catalog.\<close>

lemma fixed_layout_keys:
  "list_all (\<lambda>n. case derive_size n of Inl _ \<Rightarrow> False
                  | Inr s \<Rightarrow> marker_key (PyStr s) (PyInt 250) \<notin> set (map fst ARUCO_DICT))
     (drop 16 (map fst ARUCO_DICT))"
  by code_simp


lemma find_loop_imread: "find_loop lib imread_capture w s r = Some (Inl AttributeError)"
  by (subst find_loop.simps) (simp add: loop_body_def imread_capture_def)

lemma find_loop_list_terminates: "\<exists>r. find_loop lib list_capture (fs, ks) s resp = Some r"
proof (induction fs arbitrary: ks s resp)
  case Nil
  show ?case by (subst find_loop.simps) (simp add: loop_body_def list_capture_def)
next
  case (Cons f fs)
  show ?case
    using Cons.IH
    by (subst find_loop.simps)
       (auto simp: loop_body_def list_capture_def Let_def split: option.splits sum.splits prod.splits list.splits iteration.splits)
qed

text \<open>On a steady frame where every step succeeds, an iteration of the loop is
  one \<open>waitKey\<close>: it leaves the loop exactly on the key \<open>^\<close>.\<close>

lemma find_loop_steady_step:
  assumes ty: "findArucoTYPE lib img = Some (True, t # ts)"
    and sz: "derive_size t = Inr s"
    and mk: "fst (findArucoMarkers lib img (PyStr s) (PyInt 250) True) = Some (True, r)"
  shows "find_loop lib (steady_capture img) (k # ks) sv resp =
           (if key_code k = 94 then Some (Inr (Break ks (Some r)))
            else find_loop lib (steady_capture img) ks (Some s) (Some r))"
  by (subst find_loop.simps) (simp add: loop_body_def steady_capture_def ty sz mk)

lemma find_loop_steady_stop:
  assumes "findArucoTYPE lib img = Some (True, t # ts)"
    and "derive_size t = Inr s"
    and "fst (findArucoMarkers lib img (PyStr s) (PyInt 250) True) = Some (True, r)"
  shows "k \<in> set ks \<Longrightarrow> key_code k = 94 \<Longrightarrow>
           \<exists>ks'. find_loop lib (steady_capture img) ks sv resp = Some (Inr (Break ks' (Some r)))"
proof (induction ks arbitrary: sv resp)
  case (Cons k' ks)
  then show ?case
    by (cases "key_code k' = 94") (auto simp: find_loop_steady_step [OF assms])
qed simp

text \<open>Without the key \<open>^\<close>, no iteration leaves the loop: by induction over the
  fixed-point approximations of \<open>find_loop\<close>, none of them returns a value.\<close>

lemma find_loop_steady_no_return:
  assumes ty: "findArucoTYPE lib img = Some (True, t # ts)"
    and sz: "derive_size t = Inr s"
    and mk: "fst (findArucoMarkers lib img (PyStr s) (PyInt 250) True) = Some (True, r)"
    and run: "find_loop lib' cap w sv resp = Some y"
  shows "lib' = lib \<longrightarrow> cap = steady_capture img \<longrightarrow> list_all (\<lambda>k. key_code k \<noteq> 94) w \<longrightarrow> False"
proof (induction rule: find_loop.raw_induct [OF _ run])
  case (1 loop lib' cap w sv resp y)
  show ?case
  proof (intro impI)
    assume l: "lib' = lib" and c: "cap = steady_capture img"
      and keys: "list_all (\<lambda>k. key_code k \<noteq> 94) w"
    have "loop lib (steady_capture img) (drop 1 w) (Some s) (Some r) = Some y"
      using "1"(2) l c keys ty sz mk
      by (simp add: loop_body_def steady_capture_def key_code_def split: list.splits)
    moreover have "list_all (\<lambda>k. key_code k \<noteq> 94) (drop 1 w)"
      using keys by (cases w) simp_all
    ultimately show False using "1"(1) by blast
  qed
qed

text \<open>A frame list: an empty list ends the loop with a break; a frame on which the
  pipeline succeeds, followed by a key that is not \<open>^\<close>, goes on with the rest.\<close>

lemma find_loop_list_Nil:
  "find_loop lib list_capture ([], ks) sv resp = Some (Inr (Break ([], ks) resp))"
  by (subst find_loop.simps) (simp add: loop_body_def list_capture_def)

lemma find_loop_list_good:
  assumes "findArucoTYPE lib f = Some (True, t # ts)"
    and "derive_size t = Inr s"
    and "fst (findArucoMarkers lib f (PyStr s) (PyInt 250) True) = Some (True, r)"
    and "list_all (\<lambda>k. key_code k \<noteq> 94) ks"
  shows "find_loop lib list_capture (f # fs, ks) sv resp =
           find_loop lib list_capture (fs, drop 1 ks) (Some s) (Some r)"
  using assms
  by (subst find_loop.simps) (auto simp: loop_body_def list_capture_def key_code_def split: list.splits)

lemma find_loop_list_all_good:
  assumes good: "\<forall>f\<in>set fs. \<exists>t ts s. findArucoTYPE lib f = Some (True, t # ts) \<and> derive_size t = Inr s \<and>
                     fst (findArucoMarkers lib f (PyStr s) (PyInt 250) True) = Some (True, rf f)"
    and keys: "list_all (\<lambda>k. key_code k \<noteq> 94) ks"
  shows "fs \<noteq> [] \<Longrightarrow>
           \<exists>ks'. find_loop lib list_capture (fs, ks) sv resp = Some (Inr (Break ([], ks') (Some (rf (last fs)))))"
  using good keys
proof (induction fs arbitrary: ks sv resp)
  case (Cons f fs)
  then obtain t ts s where ty: "findArucoTYPE lib f = Some (True, t # ts)" and sz: "derive_size t = Inr s"
      and mk: "fst (findArucoMarkers lib f (PyStr s) (PyInt 250) True) = Some (True, rf f)" by auto
  have keys': "list_all (\<lambda>k. key_code k \<noteq> 94) (drop 1 ks)"
    using Cons.prems(3) by (cases ks) simp_all
  show ?case
  proof (cases "fs = []")
    case True
    then show ?thesis
      by (simp add: find_loop_list_good [OF ty sz mk Cons.prems(3)] find_loop_list_Nil)
  next
    case False
    with Cons.IH [of "drop 1 ks" "Some s" "Some (rf f)"] Cons.prems(2) keys' show ?thesis
      by (simp add: find_loop_list_good [OF ty sz mk Cons.prems(3)])
  qed
qed simp

text \<open>The pipeline's steps on the one-dimensional image with one marker of
  \<open>DICT_5X5_250\<close>.\<close>

lemma flat_probe:
  "findArucoTYPE (flat_lib DICT_5X5_250 [square_marker 10 10 20 7]) flat_img =
     Some (True, [''DICT_5X5_250''])"
  by code_simp

lemma flat_size: "derive_size ''DICT_5X5_250'' = Inr ''5''"
  by code_simp

lemma flat_annotate:
  "fst (findArucoMarkers (flat_lib DICT_5X5_250 [square_marker 10 10 20 7]) flat_img
          (PyStr ''5'') (PyInt 250) True) = Some (True, RespBytes ''aGk=\<newline>'')"
  by code_simp

section \<open>Properties of the driver\<close>

text \<open>
  C1. The driver as written always fails: \<open>cv2.imread\<close> returns an array (or
  \<open>None\<close>), \<open>cap.read()\<close> raises AttributeError in the first iteration, and the
  \<open>except\<close> clause returns the two-element \<open>(False, "Internal error")\<close>, for every
  path and every library behaviour.
\<close>

theorem findAruco_always_fails: "findAruco lib path = Some (Ret2 False internal_error)"
  by (simp add: findAruco_def findAruco_with_def find_loop_imread)

text \<open>
  C2. Running the module always ends in an uncaught ValueError: the top-level
  statement unpacks the driver's two-element result into three names.
\<close>

theorem module_main_ValueError: "module_main lib = Some (Inl ValueError)"
  by (simp add: module_main_def findAruco_def findAruco_with_def find_loop_imread)

text \<open>
  C11. On a capture with finitely many frames the driver's \<open>while True\<close> loop
  stops: the driver returns a result for every library, key sequence and frame list.
\<close>

theorem findAruco_list_terminates: "\<exists>r. findAruco_with lib list_capture (fs, ks) = Some r"
  using find_loop_list_terminates [of lib fs ks None None]
  by (auto simp: findAruco_with_def)

text \<open>
  C10. The driver annotates with the 250-marker dictionary of the detected side,
  whatever dictionary the prober named, because \<open>totalMarkers\<close> is not forwarded
  (line 114). So when the prober names \<open>DICT_aXa_q\<close> and the frame shows no marker
  of \<open>DICT_aXa_250\<close> (a marker with id 250 or more, found only under
  \<open>DICT_4X4_1000\<close>, say), the annotator falls through, unpacking its \<open>None\<close>
  raises, and the driver returns \<open>(False, "Internal error")\<close> on a readable frame
  whose marker was found, for every library and every rest of the capture.
\<close>

theorem driver_annotates_with_250:
  assumes "findArucoTYPE lib f = Some (True, [''DICT_'' @ a @ ''X'' @ a @ ''_'' @ q])"
    and "CHR ''_'' \<notin> set a" and "CHR ''X'' \<notin> set a"
    and "aruco_getattr (''DICT_'' @ a @ ''X'' @ a @ ''_250'') = Inr d"
    and "cvtColor_gray lib f = Inr g" and "detectMarkers lib g d = Inr r" and "det_corners r = []"
  shows "findAruco_with lib list_capture (f # fs, ks) = Some (Ret2 False internal_error)"
proof -
  define n where "n = ''DICT_'' @ a @ ''X'' @ a @ ''_'' @ q"
  have ty: "findArucoTYPE lib f = Some (True, [n])" using assms(1) by (simp add: n_def)
  have s: "derive_size n = Inr a"
    using derive_size_parts [of "''DICT''" a a q] assms(2,3) by (simp add: n_def)
  have mk: "fst (findArucoMarkers lib f (PyStr a) (PyInt 250) True) = None"
    using assms(4-7)
    by (simp add: findArucoMarkers_def findArucoMarkers_body_def py_except_internal_def Let_def
                  marker_key_250)
  show ?thesis
    by (subst findAruco_with_def, subst find_loop.simps)
       (simp add: loop_body_def list_capture_def ty s mk)
qed

lemma driver_annotates_with_250_witness:
  "findArucoTYPE (fixed_lib DICT_4X4_1000 [square_marker 10 10 20 300]) blank_img =
     Some (True, [''DICT_'' @ ''4'' @ ''X'' @ ''4'' @ ''_'' @ ''1000'']) \<and>
   CHR ''_'' \<notin> set ''4'' \<and> CHR ''X'' \<notin> set ''4'' \<and>
   aruco_getattr (''DICT_'' @ ''4'' @ ''X'' @ ''4'' @ ''_250'') = Inr DICT_4X4_250 \<and>
   findAruco_with (fixed_lib DICT_4X4_1000 [square_marker 10 10 20 300]) list_capture ([blank_img], []) =
     Some (Ret2 False internal_error)"
proof -
  let ?lib = "fixed_lib DICT_4X4_1000 [square_marker 10 10 20 300]"
  let ?g = "blank_img\<lparr>trace_view := (trace_view blank_img)\<lparr>buf_ndim := 2\<rparr>\<rparr>"
  have h1: "findArucoTYPE ?lib blank_img = Some (True, [''DICT_'' @ ''4'' @ ''X'' @ ''4'' @ ''_'' @ ''1000''])"
    by code_simp
  have h2: "CHR ''_'' \<notin> set ''4''" by simp
  have h3: "CHR ''X'' \<notin> set ''4''" by simp
  have h4: "aruco_getattr (''DICT_'' @ ''4'' @ ''X'' @ ''4'' @ ''_250'') = Inr DICT_4X4_250"
    by code_simp
  have h5: "cvtColor_gray ?lib blank_img = Inr ?g"
    by (simp add: fixed_lib_def trace_lib_def blank_img_def)
  have h6: "detectMarkers ?lib ?g DICT_4X4_250 = Inr \<lparr>det_corners = [], det_ids = None\<rparr>"
    by (simp add: fixed_lib_def trace_lib_def fixed_detector_def)
  have h7: "det_corners \<lparr>det_corners = [], det_ids = None\<rparr> = []" by simp
  show ?thesis
    using h1 h2 h3 h4 driver_annotates_with_250 [OF h1 h2 h3 h4 h5 h6 h7, of "[]" "[]"] by blast
qed

text \<open>
  C16. If the first \<open>cap.read()\<close> fails, the loop breaks before \<open>resp\<close> is bound;
  \<open>return True, resp, 200\<close> raises UnboundLocalError and the driver returns
  \<open>(False, "Internal error")\<close>.
\<close>

theorem driver_first_read_unbound:
  "findAruco_with lib list_capture ([], ks) = Some (Ret2 False internal_error)"
  by (subst findAruco_with_def, subst find_loop.simps) (simp add: loop_body_def list_capture_def)

text \<open>
  C21. The driver's \<open>while True\<close> loop has no exit but a failed read, an error or the
  \<open>^\<close> key: on a live camera that keeps delivering a frame on which the prober and
  the annotator succeed, with no \<open>^\<close> among the keys pressed, \<open>findAruco\<close>
  never returns.
\<close>

theorem findAruco_steady_never_returns:
  assumes "findArucoTYPE lib img = Some (True, t # ts)"
    and "derive_size t = Inr s"
    and "fst (findArucoMarkers lib img (PyStr s) (PyInt 250) True) = Some (True, r)"
    and "list_all (\<lambda>k. key_code k \<noteq> 94) ks"
  shows "findAruco_with lib (steady_capture img) ks = None"
  using find_loop_steady_no_return [OF assms(1-3), of lib "steady_capture img" ks None None] assms(4)
  by (cases "find_loop lib (steady_capture img) ks None None") (auto simp: findAruco_with_def)

lemma findAruco_steady_never_returns_witness:
  "findArucoTYPE (flat_lib DICT_5X5_250 [square_marker 10 10 20 7]) flat_img =
     Some (True, [''DICT_5X5_250'']) \<and>
   derive_size ''DICT_5X5_250'' = Inr ''5'' \<and>
   fst (findArucoMarkers (flat_lib DICT_5X5_250 [square_marker 10 10 20 7]) flat_img
          (PyStr ''5'') (PyInt 250) True) = Some (True, RespBytes ''aGk=\<newline>'') \<and>
   list_all (\<lambda>k. key_code k \<noteq> 94) [113, -1] \<and>
   findAruco_with (flat_lib DICT_5X5_250 [square_marker 10 10 20 7]) (steady_capture flat_img) [113, -1] = None"
proof -
  have keys: "list_all (\<lambda>k. key_code k \<noteq> 94) [113, -1 :: int]"
    by (simp add: key_code_def)
  show ?thesis
    using flat_probe flat_size flat_annotate keys
          findAruco_steady_never_returns [OF flat_probe flat_size flat_annotate keys]
    by simp
qed

text \<open>
  C22. The stop key ends the run: on the same live camera, once the user presses a
  key whose code is \<open>^\<close> (94, after \<open>& 0xff\<close>), the loop breaks, the capture is
  released and the driver returns \<open>(True, resp, 200)\<close> with the last annotation.
\<close>

theorem findAruco_steady_stop_key:
  assumes "findArucoTYPE lib img = Some (True, t # ts)"
    and "derive_size t = Inr s"
    and "fst (findArucoMarkers lib img (PyStr s) (PyInt 250) True) = Some (True, r)"
    and "k \<in> set ks" and "key_code k = 94"
  shows "findAruco_with lib (steady_capture img) ks = Some (Ret3 True r 200)"
proof -
  obtain ks' where "find_loop lib (steady_capture img) ks None None = Some (Inr (Break ks' (Some r)))"
    using find_loop_steady_stop [OF assms(1-3) assms(4,5)] by blast
  then show ?thesis by (simp add: findAruco_with_def steady_capture_def)
qed

lemma findAruco_steady_stop_key_witness:
  "findArucoTYPE (flat_lib DICT_5X5_250 [square_marker 10 10 20 7]) flat_img =
     Some (True, [''DICT_5X5_250'']) \<and>
   derive_size ''DICT_5X5_250'' = Inr ''5'' \<and>
   fst (findArucoMarkers (flat_lib DICT_5X5_250 [square_marker 10 10 20 7]) flat_img
          (PyStr ''5'') (PyInt 250) True) = Some (True, RespBytes ''aGk=\<newline>'') \<and>
   350 \<in> set [-1, 113, 350 :: int] \<and> key_code 350 = 94 \<and>
   findAruco_with (flat_lib DICT_5X5_250 [square_marker 10 10 20 7]) (steady_capture flat_img)
     [-1, 113, 350] = Some (Ret3 True (RespBytes ''aGk=\<newline>'') 200)"
proof -
  have k: "350 \<in> set [-1, 113, 350 :: int]" by simp
  have c: "key_code 350 = 94" by (simp add: key_code_def)
  show ?thesis
    using flat_probe flat_size flat_annotate k c
          findAruco_steady_stop_key [OF flat_probe flat_size flat_annotate k c]
    by simp
qed

text \<open>
  C28. A finite video in which every frame shows a detectable marker, with no \<open>^\<close>
  key pressed: the driver processes every frame, the read after the last one fails,
  the loop breaks, and \<open>findAruco\<close> returns \<open>(True, resp, 200)\<close> with the
  annotation of the last frame.
\<close>

theorem findAruco_video_all_good:
  assumes "\<forall>f\<in>set fs. \<exists>t ts s. findArucoTYPE lib f = Some (True, t # ts) \<and> derive_size t = Inr s \<and>
             fst (findArucoMarkers lib f (PyStr s) (PyInt 250) True) = Some (True, rf f)"
    and "list_all (\<lambda>k. key_code k \<noteq> 94) ks"
    and "fs \<noteq> []"
  shows "findAruco_with lib list_capture (fs, ks) = Some (Ret3 True (rf (last fs)) 200)"
proof -
  obtain ks' where "find_loop lib list_capture (fs, ks) None None =
                      Some (Inr (Break ([], ks') (Some (rf (last fs)))))"
    using find_loop_list_all_good [OF assms(1,2) assms(3)] by blast
  then show ?thesis by (simp add: findAruco_with_def list_capture_def)
qed

lemma findAruco_video_all_good_witness:
  "findArucoTYPE (flat_lib DICT_5X5_250 [square_marker 10 10 20 7]) flat_img =
     Some (True, [''DICT_5X5_250'']) \<and>
   derive_size ''DICT_5X5_250'' = Inr ''5'' \<and>
   fst (findArucoMarkers (flat_lib DICT_5X5_250 [square_marker 10 10 20 7]) flat_img
          (PyStr ''5'') (PyInt 250) True) = Some (True, RespBytes ''aGk=\<newline>'') \<and>
   list_all (\<lambda>k. key_code k \<noteq> 94) [113, -1] \<and>
   findAruco_with (flat_lib DICT_5X5_250 [square_marker 10 10 20 7]) list_capture
     ([flat_img, flat_img, flat_img], [113, -1]) = Some (Ret3 True (RespBytes ''aGk=\<newline>'') 200)"
proof -
  have good: "\<forall>f\<in>set [flat_img, flat_img, flat_img]. \<exists>t ts s.
      findArucoTYPE (flat_lib DICT_5X5_250 [square_marker 10 10 20 7]) f = Some (True, t # ts) \<and>
      derive_size t = Inr s \<and>
      fst (findArucoMarkers (flat_lib DICT_5X5_250 [square_marker 10 10 20 7]) f (PyStr s) (PyInt 250) True) =
        Some (True, (\<lambda>_. RespBytes ''aGk=\<newline>'') f)"
    using flat_probe flat_size flat_annotate by simp
  have keys: "list_all (\<lambda>k. key_code k \<noteq> 94) [113, -1 :: int]" by (simp add: key_code_def)
  have ne: "[flat_img, flat_img, flat_img] \<noteq> []" by simp
  show ?thesis
    using flat_probe flat_size flat_annotate keys findAruco_video_all_good [OF good keys ne] by simp
qed

text \<open>
  C29. A frame whose markers the prober attributes to a fixed-layout dictionary
  (\<open>DICT_ARUCO_ORIGINAL\<close> or an AprilTag family) stops the driver with
  \<open>(False, "Internal error", 500)\<close>: the size parsed from the name (\<open>ARUCO\<close> or
  \<open>APRILTAG\<close>) names no dictionary, the annotator's lookup fails, and the driver
  returns at its second status test.
\<close>

theorem driver_fixed_layout_fails:
  assumes "findArucoTYPE lib f = Some (True, [n])" and "n \<in> set (drop 16 (map fst ARUCO_DICT))"
  shows "findAruco_with lib list_capture (f # fs, ks) = Some (Ret3 False internal_error 500)"
proof -
  have "case derive_size n of Inl _ \<Rightarrow> False
          | Inr s \<Rightarrow> marker_key (PyStr s) (PyInt 250) \<notin> set (map fst ARUCO_DICT)"
    using fixed_layout_keys assms(2) unfolding list_all_iff by blast
  then obtain s where s: "derive_size n = Inr s"
    and key: "marker_key (PyStr s) (PyInt 250) \<notin> set (map fst ARUCO_DICT)"
    by (cases "derive_size n") auto
  have mk: "fst (findArucoMarkers lib f (PyStr s) (PyInt 250) True) = Some (False, internal_error)"
    by (simp add: findArucoMarkers_getattr_error [OF aruco_getattr_other [OF key]])
  show ?thesis
    by (subst findAruco_with_def, subst find_loop.simps)
       (simp add: loop_body_def list_capture_def assms(1) s mk)
qed

lemma driver_fixed_layout_fails_witness:
  "findArucoTYPE (fixed_lib DICT_APRILTAG_36h11 [square_marker 10 10 20 7]) blank_img =
     Some (True, [''DICT_APRILTAG_36h11'']) \<and>
   ''DICT_APRILTAG_36h11'' \<in> set (drop 16 (map fst ARUCO_DICT)) \<and>
   findAruco_with (fixed_lib DICT_APRILTAG_36h11 [square_marker 10 10 20 7]) list_capture
     ([blank_img], []) = Some (Ret3 False internal_error 500)"
proof -
  have h1: "findArucoTYPE (fixed_lib DICT_APRILTAG_36h11 [square_marker 10 10 20 7]) blank_img =
              Some (True, [''DICT_APRILTAG_36h11''])" by code_simp
  have h2: "''DICT_APRILTAG_36h11'' \<in> set (drop 16 (map fst ARUCO_DICT))" by code_simp
  show ?thesis using h1 h2 driver_fixed_layout_fails [OF h1 h2, of "[]" "[]"] by simp
qed

text \<open>
  C31. How the driver reads the marker size off a dictionary name
  \<open>(types[0].split("_")[1]).split("X")[0]\<close>: for any name made of a prefix, an
  underscore, a side \<open>a\<close>, an \<open>X\<close>, a part without underscore, an underscore and a
  rest, the size is \<open>a\<close>, as long as the prefix and \<open>a\<close> have no underscore and
  \<open>a\<close> has no \<open>X\<close> (\<open>DICT_4X4_50\<close> gives \<open>4\<close>).
\<close>

theorem derive_size_side:
  assumes "CHR ''_'' \<notin> set p" and "CHR ''_'' \<notin> set a" and "CHR ''X'' \<notin> set a" and "CHR ''_'' \<notin> set r"
  shows "derive_size (p @ ''_'' @ a @ ''X'' @ r @ ''_'' @ q) = Inr a"
  using derive_size_parts [OF assms] .

lemma derive_size_side_witness:
  "CHR ''_'' \<notin> set ''DICT'' \<and> CHR ''_'' \<notin> set ''12'' \<and> CHR ''X'' \<notin> set ''12'' \<and>
   CHR ''_'' \<notin> set ''12'' \<and> derive_size (''DICT'' @ ''_'' @ ''12'' @ ''X'' @ ''12'' @ ''_'' @ ''1000'') = Inr ''12''"
proof -
  have h1: "CHR ''_'' \<notin> set ''DICT''" by simp
  have h2: "CHR ''_'' \<notin> set ''12''" by simp
  have h3: "CHR ''X'' \<notin> set ''12''" by simp
  show ?thesis using h1 h2 h3 derive_size_side [OF h1 h2 h3 h2, of "''1000''"] by simp
qed

end
