(* ===== verification/Console.thy ===== *)
theory Console
  imports FindAruco
begin

text \<open>
  The console output of \<open>app.py\<close>: its \<open>print\<close> calls. The silent model of the
  other theories leaves them out; here each ArUco function is written once more with
  its prints, returning beside its result the lines it printed, one list of Python
  values per \<open>print\<close> call, in order. The lemmas \<open>*_io_erase\<close> show that dropping the
  output gives back the silent model, so every theorem about the silent model holds
  of the printing program.

  The \<open>except\<close> clauses print \<open>exc_type, fname, exc_tb.tb_lineno\<close>: the exception's
  class, the base name of the file (\<open>app.py\<close>) and the line of the catching function
  at which the exception passed (the raising statement, or the call that raised it).
  So the errors of the printing model carry that line: \<open>py_raise\<close> is an exception
  with its line. A statement spread over several lines is reported at its first line,
  as CPython 3.8 does for a call. NumPy values are printed by their \<open>repr\<close>; the model
  keeps the value (\<open>PVIds\<close> for the id array, \<open>None\<close> when there is none).
\<close>

datatype pv = PVStr string | PVInt int | PVBool bool | PVIds "int list option"
  | PVBytes string | PVExcType py_exc | PVResp resp

type_synonym console = "pv list list"

type_synonym py_raise = "py_exc \<times> nat"

text \<open>\<open>print(exc_type, fname, exc_tb.tb_lineno)\<close>\<close>

definition exc_report :: "py_raise \<Rightarrow> pv list" where
  "exc_report x = [PVExcType (fst x), PVStr ''app.py'', PVInt (int (snd x))]"

section \<open>The prober with its prints\<close>

text \<open>\<open>"[INFO] detected {} markers for '{}'".format(len(corners), arucoName)\<close>\<close>

definition info_msg :: "nat \<Rightarrow> string \<Rightarrow> string" where
  "info_msg n arucoName =
     ''[INFO] detected '' @ py_str_int (int n) @ '' markers for '' @ [CHR 0x27] @ arucoName @ [CHR 0x27]"

fun probe_loop_io ::
  "'img cv_lib \<Rightarrow> 'img \<Rightarrow> (string \<times> aruco_dict) list
   \<Rightarrow> (py_raise + (bool \<times> string list) option) \<times> console" where
  "probe_loop_io lib img [] = (Inr None, [])"
| "probe_loop_io lib img ((arucoName, arucoDict) # rest) =
     (case detectMarkers lib img arucoDict of
        Inl e \<Rightarrow> (Inl (e, 43), [])
      | Inr r \<Rightarrow>
          if 0 < length (det_corners r)
          then (Inr (Some (True, [arucoName])), [[PVStr (info_msg (length (det_corners r)) arucoName)]])
          else probe_loop_io lib img rest)"

definition findArucoTYPE_io :: "'img cv_lib \<Rightarrow> 'img \<Rightarrow> (bool \<times> string list) option \<times> console" where
  "findArucoTYPE_io lib img =
     (case probe_loop_io lib img ARUCO_DICT of
        (Inl x, out) \<Rightarrow> (Some (False, []), out @ [exc_report x])
      | (Inr r, out) \<Rightarrow> (r, out))"

section \<open>The annotator with its prints\<close>

fun annotate_loop_io ::
  "'img cv_lib \<Rightarrow> 'img \<Rightarrow> (point list \<times> int) list
   \<Rightarrow> (py_raise + (bool \<times> resp) option) \<times> 'img \<times> console" where
  "annotate_loop_io lib img [] = (Inr None, img, [])"
| "annotate_loop_io lib img ((markerCorner, markerID) # rest) =
     (case reshape_4x2 markerCorner of
        Inl e \<Rightarrow> (Inl (e, 74), img, [])
      | Inr (tlf, trf, brf, blf) \<Rightarrow>
          (let topRight = int_point trf; bottomRight = int_point brf;
               bottomLeft = int_point blf; topLeft = int_point tlf;
               c = marker_center topLeft bottomRight;
               img1 = cv_circle lib img c 4 (0, 0, 255) (-1);
               img2 = cv_putText lib img1 (py_str_int markerID) (fst topLeft, snd topLeft - 15)
                        FONT_HERSHEY_SIMPLEX (1 / 2) (0, 255, 0) 2
           in (case encodestring (img_memoryview lib img2) of
                 Inl e \<Rightarrow> (Inl (e, 86), img2, [])
               | Inr image_64_encode \<Rightarrow>
                   (Inr (Some (True, RespBytes image_64_encode)), img2,
                    [[PVStr ''Base64 Encoded Image:'', PVBytes image_64_encode]]))))"

definition findArucoMarkers_body_io ::
  "'img cv_lib \<Rightarrow> 'img \<Rightarrow> pyarg \<Rightarrow> pyarg \<Rightarrow> bool
   \<Rightarrow> (py_raise + (bool \<times> resp) option) \<times> 'img \<times> console" where
  "findArucoMarkers_body_io lib img markerSize totalMarkers draw =
     (case cvtColor_gray lib img of
        Inl e \<Rightarrow> (Inl (e, 60), img, [])
      | Inr gray \<Rightarrow>
          (case aruco_getattr (marker_key markerSize totalMarkers) of
             Inl e \<Rightarrow> (Inl (e, 61), img, [])
           | Inr key \<Rightarrow>
               (case detectMarkers lib gray key of
                  Inl e \<Rightarrow> (Inl (e, 64), img, [])
                | Inr r \<Rightarrow>
                    (let out = [[PVStr ''Aruco IDs:'', PVIds (det_ids r)]];
                         img1 = (if draw then drawDetectedMarkers lib img (det_corners r) else img)
                     in if 0 < length (det_corners r) then
                          (case det_ids r of
                             None \<Rightarrow> (Inl (AttributeError, 71), img1, out)
                           | Some ids \<Rightarrow>
                               (case annotate_loop_io lib img1 (zip (det_corners r) ids) of
                                  (v, img2, out2) \<Rightarrow> (v, img2, out @ out2)))
                        else (Inr None, img1, out)))))"

definition findArucoMarkers_io ::
  "'img cv_lib \<Rightarrow> 'img \<Rightarrow> pyarg \<Rightarrow> pyarg \<Rightarrow> bool \<Rightarrow> (bool \<times> resp) option \<times> 'img \<times> console" where
  "findArucoMarkers_io lib img markerSize totalMarkers draw =
     (case findArucoMarkers_body_io lib img markerSize totalMarkers draw of
        (Inl x, i, out) \<Rightarrow> (Some (False, internal_error), i, out @ [exc_report x])
      | (Inr v, i, out) \<Rightarrow> (v, i, out))"

section \<open>The driver and the module with their prints\<close>

text \<open>One iteration prints \<open>Read Success:\<close> after each successful \<open>cap.read()\<close> call
  and \<open>Size:\<close> when the prober named a dictionary; the prober's and the annotator's
  output comes in between. An exception leaves the loop with the line it passed.\<close>

definition loop_body_io ::
  "'img cv_lib \<Rightarrow> ('w, 'img) capture \<Rightarrow> 'w \<Rightarrow> string option \<Rightarrow> resp option
   \<Rightarrow> (py_raise, 'w) iteration \<times> console" where
  "loop_body_io lib cap w size_var resp =
     (case cap_read cap w of
        Inl e \<Rightarrow> (Exit (Inl (e, 101)), [])
      | Inr (w1, None) \<Rightarrow> (Exit (Inr (Break w1 resp)), [[PVStr ''Read Success:'', PVBool False]])
      | Inr (w1, Some img) \<Rightarrow>
          (let out0 = [[PVStr ''Read Success:'', PVBool True]] in
           case findArucoTYPE_io lib img of
             (None, out1) \<Rightarrow> (Exit (Inl (TypeError, 106)), out0 @ out1)
           | (Some (status, types), out1) \<Rightarrow>
               if \<not> status then (Exit (Inr (Return (Ret3 False internal_error 500))), out0 @ out1)
               else
                 (case (if types \<noteq> [] then map_sum id Some (derive_size (hd types)) else Inr size_var) of
                    Inl e \<Rightarrow> (Exit (Inl (e, 111)), out0 @ out1)
                  | Inr None \<Rightarrow> (Exit (Inl (UnboundLocalError, 114)), out0 @ out1)
                  | Inr (Some size1) \<Rightarrow>
                      (let out2 = out0 @ out1 @ (if types \<noteq> [] then [[PVStr ''Size:'', PVStr size1]] else [])
                       in case findArucoMarkers_io lib img (PyStr size1) (PyInt 250) True of
                            (None, _, out3) \<Rightarrow> (Exit (Inl (TypeError, 114)), out2 @ out3)
                          | (Some (status2, resp2), _, out3) \<Rightarrow>
                              if \<not> status2 then (Exit (Inr (Return (Ret3 False internal_error 500))), out2 @ out3)
                              else
                                (let (w2, k) = cv_waitKey cap w1 in
                                 if key_code k = 94 then (Exit (Inr (Break w2 (Some resp2))), out2 @ out3)
                                 else (Next w2 (Some size1) (Some resp2), out2 @ out3))))))"

text \<open>The loop: an iteration that does not leave it is followed by the next one, whose
  output comes after its own.\<close>

partial_function (option) find_loop_io ::
  "'img cv_lib \<Rightarrow> ('w, 'img) capture \<Rightarrow> 'w \<Rightarrow> string option \<Rightarrow> resp option
   \<Rightarrow> ((py_raise + 'w loop_exit) \<times> console) option" where
  "find_loop_io lib cap w size_var resp =
     (case loop_body_io lib cap w size_var resp of
        (Exit r, out) \<Rightarrow> Some (r, out)
      | (Next w2 size2 resp2, out) \<Rightarrow>
          Option.bind (find_loop_io lib cap w2 size2 resp2)
            (\<lambda>(r, out'). Some (r, out @ out')))"

declare find_loop_io.simps [code]

text \<open>After the loop \<open>cap.release()\<close> (line 121) and \<open>return True, resp, 200\<close>
  (line 123); the \<open>except\<close> clause prints the report.\<close>

definition findAruco_with_io ::
  "'img cv_lib \<Rightarrow> ('w, 'img) capture \<Rightarrow> 'w \<Rightarrow> (find_ret \<times> console) option" where
  "findAruco_with_io lib cap w0 =
     map_option
       (\<lambda>(r, out). case r of
          Inl x \<Rightarrow> (Ret2 False internal_error, out @ [exc_report x])
        | Inr (Return v) \<Rightarrow> (v, out)
        | Inr (Break w resp) \<Rightarrow>
            (case cap_release cap w of
               Inl e \<Rightarrow> (Ret2 False internal_error, out @ [exc_report (e, 121)])
             | Inr _ \<Rightarrow>
                 (case resp of
                    None \<Rightarrow> (Ret2 False internal_error, out @ [exc_report (UnboundLocalError, 123)])
                  | Some v \<Rightarrow> (Ret3 True v 200, out))))
       (find_loop_io lib cap w0 None None)"

definition findAruco_io :: "'img cv_lib \<Rightarrow> string \<Rightarrow> (find_ret \<times> console) option" where
  "findAruco_io lib path =
     findAruco_with_io lib imread_capture
       (case imread lib path of None \<Rightarrow> NoneObj | Some a \<Rightarrow> NdArrayObj a)"

text \<open>The module's last lines print the three values, unless the unpacking raised.\<close>

definition module_main_io ::
  "'img cv_lib \<Rightarrow> ((py_exc + bool \<times> resp \<times> int) \<times> console) option" where
  "module_main_io lib =
     map_option
       (\<lambda>(r, out). case r of
          Ret3 status response code \<Rightarrow>
            (Inr (status, response, code),
             out @ [[PVStr ''Status:'', PVBool status], [PVStr ''Response:'', PVResp response],
                    [PVStr ''Code:'', PVInt code]])
        | Ret2 _ _ \<Rightarrow> (Inl ValueError, out))
       (findAruco_io lib image_path)"

section \<open>Erasing the output\<close>

lemma probe_loop_io_erase:
  "map_sum fst id (fst (probe_loop_io lib img tbl)) = probe_loop lib img tbl"
  by (induction lib img tbl rule: probe_loop_io.induct) (auto split: sum.splits)

lemma findArucoTYPE_io_erase: "fst (findArucoTYPE_io lib img) = findArucoTYPE lib img"
  using probe_loop_io_erase [of lib img ARUCO_DICT]
  by (auto simp: findArucoTYPE_io_def findArucoTYPE_def split: prod.splits sum.splits)

lemma annotate_loop_io_erase:
  "annotate_loop lib img ms = (case annotate_loop_io lib img ms of (v, i, _) \<Rightarrow> (map_sum fst id v, i))"
  by (induction lib img ms rule: annotate_loop_io.induct)
     (auto simp: Let_def split: sum.splits)

lemma findArucoMarkers_body_io_erase:
  "findArucoMarkers_body lib img ms tm draw =
     (case findArucoMarkers_body_io lib img ms tm draw of (v, i, _) \<Rightarrow> (map_sum fst id v, i))"
  by (auto simp: findArucoMarkers_body_io_def findArucoMarkers_body_def annotate_loop_io_erase Let_def
           split: prod.splits sum.splits option.splits)

lemma findArucoMarkers_io_erase:
  "findArucoMarkers lib img ms tm draw =
     (case findArucoMarkers_io lib img ms tm draw of (v, i, _) \<Rightarrow> (v, i))"
  by (auto simp: findArucoMarkers_io_def findArucoMarkers_def findArucoMarkers_body_io_erase
                 py_except_internal_def split: prod.splits sum.splits)

lemma loop_body_io_erase:
  "loop_body lib cap w sv resp = map_iteration fst id (fst (loop_body_io lib cap w sv resp))"
proof (cases "cap_read cap w")
  case (Inl e)
  then show ?thesis by (simp add: loop_body_def loop_body_io_def)
next
  case (Inr p)
  obtain w1 fr where p: "p = (w1, fr)" by (cases p)
  show ?thesis
  proof (cases fr)
    case None
    with Inr p show ?thesis by (simp add: loop_body_def loop_body_io_def)
  next
    case (Some img)
    obtain ty out1 where T: "findArucoTYPE_io lib img = (ty, out1)" by (cases "findArucoTYPE_io lib img")
    then have t: "findArucoTYPE lib img = ty" using findArucoTYPE_io_erase [of lib img] by simp
    have M: "fst (findArucoMarkers lib img (PyStr s1) (PyInt 250) True) =
               fst (findArucoMarkers_io lib img (PyStr s1) (PyInt 250) True)" for s1
      by (simp add: findArucoMarkers_io_erase split: prod.splits)
    show ?thesis
      using Inr p Some
      by (simp add: loop_body_def loop_body_io_def T t M Let_def split: option.splits prod.splits sum.splits)
  qed
qed

lemma find_loop_io_sound:
  assumes "find_loop_io lib cap w sv resp = Some y"
  shows "find_loop lib cap w sv resp = Some (map_sum fst id (fst y))"
proof (induction rule: find_loop_io.raw_induct [OF _ assms])
  case (1 loop lib cap w sv resp y)
  obtain it out where B: "loop_body_io lib cap w sv resp = (it, out)"
    by (cases "loop_body_io lib cap w sv resp")
  show ?case
  proof (cases it)
    case (Exit r)
    with "1"(2) B show ?thesis
      by (subst find_loop.simps) (auto simp: loop_body_io_erase loop_exit.map_id0)
  next
    case (Next w2 s2 r2)
    with "1"(2) B obtain y' where y': "loop lib cap w2 s2 r2 = Some y'"
      and y: "y = (fst y', out @ snd y')"
      by (auto split: bind_splits prod.splits)
    from "1"(1) [OF y'] Next B y show ?thesis
      by (subst find_loop.simps) (simp add: loop_body_io_erase id_def)
  qed
qed

lemma find_loop_io_complete:
  assumes "find_loop lib cap w sv resp = Some z"
  shows "\<exists>y. find_loop_io lib cap w sv resp = Some y \<and> map_sum fst id (fst y) = z"
proof (induction rule: find_loop.raw_induct [OF _ assms])
  case (1 loop lib cap w sv resp z)
  obtain it out where B: "loop_body_io lib cap w sv resp = (it, out)"
    by (cases "loop_body_io lib cap w sv resp")
  show ?case
  proof (cases it)
    case (Exit r)
    with "1"(2) B show ?thesis
      by (subst find_loop_io.simps) (simp add: loop_body_io_erase loop_exit.map_id0)
  next
    case (Next w2 s2 r2)
    with "1"(2) B have "loop lib cap w2 s2 r2 = Some z" by (simp add: loop_body_io_erase)
    from "1"(1) [OF this] obtain y' where
      "find_loop_io lib cap w2 s2 r2 = Some y'" "map_sum fst id (fst y') = z" by blast
    with Next B show ?thesis
      by (subst find_loop_io.simps) (auto split: prod.splits)
  qed
qed

lemma find_loop_io_erase:
  "find_loop lib cap w sv resp = map_option (\<lambda>y. map_sum fst id (fst y)) (find_loop_io lib cap w sv resp)"
proof (cases "find_loop_io lib cap w sv resp")
  case None
  show ?thesis
  proof (cases "find_loop lib cap w sv resp")
    case (Some z)
    with find_loop_io_complete [OF Some] None show ?thesis by simp
  qed (simp add: None)
next
  case (Some y)
  then show ?thesis by (simp add: find_loop_io_sound)
qed

lemma findAruco_with_io_erase: "findAruco_with lib cap w0 = map_option fst (findAruco_with_io lib cap w0)"
  unfolding findAruco_with_def findAruco_with_io_def find_loop_io_erase option.map_comp
  by (rule option.map_cong0) (auto split: sum.splits loop_exit.splits prod.splits option.splits)

lemma module_main_io_erase: "module_main lib = map_option fst (module_main_io lib)"
  unfolding module_main_def module_main_io_def findAruco_def findAruco_io_def findAruco_with_io_erase
    option.map_comp
  by (rule option.map_cong0) (auto split: find_ret.splits prod.splits)

section \<open>The console output of the runs\<close>

lemma find_loop_io_imread:
  "find_loop_io lib imread_capture w s r = Some (Inl (AttributeError, 101), [])"
  by (subst find_loop_io.simps) (simp add: loop_body_io_def imread_capture_def)

text \<open>The steps of the run on the one-dimensional image, with their output.\<close>

lemma flat_probe_io:
  "findArucoTYPE_io (flat_lib DICT_5X5_250 [square_marker 10 10 20 7]) flat_img =
     (Some (True, [''DICT_5X5_250'']),
      [[PVStr (''[INFO] detected 1 markers for '' @ [CHR 0x27] @ ''DICT_5X5_250'' @ [CHR 0x27])]])"
  by code_simp

lemma flat_annotate_io:
  "fst (findArucoMarkers_io (flat_lib DICT_5X5_250 [square_marker 10 10 20 7]) flat_img
          (PyStr ''5'') (PyInt 250) True) = Some (True, RespBytes ''aGk=\<newline>'') \<and>
   snd (snd (findArucoMarkers_io (flat_lib DICT_5X5_250 [square_marker 10 10 20 7]) flat_img
          (PyStr ''5'') (PyInt 250) True)) =
     [[PVStr ''Aruco IDs:'', PVIds (Some [7])],
      [PVStr ''Base64 Encoded Image:'', PVBytes ''aGk=\<newline>'']]"
  by code_simp

text \<open>
  C23. What running \<open>app.py\<close> prints: one line, the report of the \<open>except\<close> clause
  of \<open>findAruco\<close> for the AttributeError raised by \<open>cap.read()\<close> at line 101
  (\<open><class 'AttributeError'> app.py 101\<close>); then the unpacking at line 132 raises
  ValueError and the three \<open>print\<close> calls of lines 133 to 135 never run. This holds
  whether or not the image file exists.
\<close>

theorem module_main_console:
  "module_main_io lib =
     Some (Inl ValueError, [[PVExcType AttributeError, PVStr ''app.py'', PVInt 101]])"
  by (simp add: module_main_io_def findAruco_io_def findAruco_with_io_def find_loop_io_imread
                exc_report_def)

text \<open>On an image in which no dictionary yields a marker, the prober runs through the
  whole table silently.\<close>

lemma probe_loop_io_no_markers:
  assumes "\<forall>d. no_markers lib img d"
  shows "probe_loop_io lib img tbl = (Inr None, [])"
proof (induction tbl)
  case (Cons entry tbl)
  obtain n d where entry: "entry = (n, d)" by (cases entry)
  from assms have "no_markers lib img d" by blast
  with Cons.IH show ?case by (auto simp: entry no_markers_def split: sum.splits)
qed simp

text \<open>
  C24. What the driver prints and returns on a frame without a marker: the read
  succeeds (\<open>Read Success: True\<close>), the prober prints nothing and returns
  \<open>None\<close>, unpacking it at line 106 raises TypeError, and the \<open>except\<close> clause
  prints \<open><class 'TypeError'> app.py 106\<close> and returns the two-element
  \<open>(False, "Internal error")\<close>, not the \<open>(False, ..., 500)\<close> of the spec; later
  frames are never read. This holds for every library and capture contents.
\<close>

theorem driver_console_no_marker:
  assumes "\<forall>d. no_markers lib f d"
  shows "findAruco_with_io lib list_capture (f # fs, ks) =
           Some (Ret2 False internal_error,
                 [[PVStr ''Read Success:'', PVBool True], [PVExcType TypeError, PVStr ''app.py'', PVInt 106]])"
proof -
  have "findArucoTYPE_io lib f = (None, [])"
    using probe_loop_io_no_markers [OF assms, of ARUCO_DICT] by (simp add: findArucoTYPE_io_def)
  then show ?thesis
    by (subst findAruco_with_io_def, subst find_loop_io.simps)
       (simp add: loop_body_io_def list_capture_def exc_report_def)
qed

lemma driver_console_no_marker_witness:
  "(\<forall>d. no_markers (fixed_lib DICT_4X4_50 []) blank_img d) \<and>
   findAruco_with_io (fixed_lib DICT_4X4_50 []) list_capture ([blank_img, blank_img], []) =
     Some (Ret2 False internal_error,
           [[PVStr ''Read Success:'', PVBool True], [PVExcType TypeError, PVStr ''app.py'', PVInt 106]])"
proof -
  have h: "\<forall>d. no_markers (fixed_lib DICT_4X4_50 []) blank_img d" by simp
  show ?thesis using h driver_console_no_marker [OF h, of "[blank_img]" "[]"] by blast
qed

section \<open>The annotator's diagnostics under the OpenCV contract\<close>

text \<open>On a library that draws in place, the first marker of a non-one-dimensional image
  with four corners reaches \<open>base64.encodestring\<close>, which raises TypeError at line 86.\<close>

lemma annotate_loop_io_encode_error:
  assumes dr: "draws_in_place lib" and nd: "buf_ndim (img_memoryview lib img) \<noteq> 1"
    and four: "length mc = 4"
  shows "fst (annotate_loop_io lib img ((mc, mid) # rest)) = Inl (TypeError, 86) \<and>
         snd (snd (annotate_loop_io lib img ((mc, mid) # rest))) = []"
proof -
  from four obtain a b c e where mc: "mc = [a, b, c, e]"
    by (auto simp: numeral_eq_Suc length_Suc_conv)
  from dr have dc: "buf_ndim (img_memoryview lib (cv_circle lib i c' r' col th)) =
                    buf_ndim (img_memoryview lib i)"
    and dp: "buf_ndim (img_memoryview lib (cv_putText lib i s p f sc col th)) =
             buf_ndim (img_memoryview lib i)" for i c' r' col th s p f sc
    unfolding draws_in_place_def by blast+
  show ?thesis
    using nd by (simp add: mc Let_def dc dp encodestring_ndim)
qed

text \<open>
  C25. What the annotator prints on a real detection: when OpenCV keeps its documented
  contract for \<open>detectMarkers\<close> and draws in place, and the image is an OpenCV image
  (not one-dimensional), then as soon as a marker is found the annotator prints the id
  array and then the report \<open><class 'TypeError'> app.py 86\<close> of the failing
  \<open>base64.encodestring\<close> call, and returns \<open>(False, "Internal error")\<close>; the
  reshape (line 74) and the id flattening (line 71) cannot fail.
\<close>

theorem findArucoMarkers_io_report:
  assumes "detector_wf lib" and "draws_in_place lib" and "buf_ndim (img_memoryview lib img) \<noteq> 1"
    and "cvtColor_gray lib img = Inr g" and "aruco_getattr (marker_key ms tm) = Inr d"
    and "detectMarkers lib g d = Inr r" and "det_corners r \<noteq> []"
  shows "fst (findArucoMarkers_io lib img ms tm draw) = Some (False, internal_error) \<and>
         snd (snd (findArucoMarkers_io lib img ms tm draw)) =
           [[PVStr ''Aruco IDs:'', PVIds (det_ids r)], [PVExcType TypeError, PVStr ''app.py'', PVInt 86]]"
proof -
  have wf: "det_wf r" using assms(1,6) by (auto simp: detector_wf_def)
  with assms(7) obtain ids where ids: "det_ids r = Some ids" and len: "length ids = length (det_corners r)"
    by (auto simp: det_wf_def split: option.splits)
  obtain mc cs where cs: "det_corners r = mc # cs" using assms(7) by (cases "det_corners r") auto
  with len obtain mid ids' where ids': "ids = mid # ids'" by (cases ids) auto
  from wf cs have four: "length mc = 4" by (simp add: det_wf_def)
  let ?img1 = "if draw then drawDetectedMarkers lib img (det_corners r) else img"
  have nd1: "buf_ndim (img_memoryview lib ?img1) \<noteq> 1"
    using assms(2,3) by (simp add: draws_in_place_def)
  obtain img2 where A: "annotate_loop_io lib ?img1 (zip (det_corners r) ids) =
                          (Inl (TypeError, 86), img2, [])"
    using annotate_loop_io_encode_error [OF assms(2) nd1 four, of mid "zip cs ids'"] cs ids'
    by (cases "annotate_loop_io lib ?img1 (zip (det_corners r) ids)") auto
  show ?thesis
    using assms(4-7) ids A
    by (simp add: findArucoMarkers_io_def findArucoMarkers_body_io_def exc_report_def Let_def)
qed

lemma findArucoMarkers_io_report_witness:
  "detector_wf (fixed_lib DICT_4X4_250 [square_marker 10 10 20 7]) \<and>
   draws_in_place (fixed_lib DICT_4X4_250 [square_marker 10 10 20 7]) \<and>
   buf_ndim (img_memoryview (fixed_lib DICT_4X4_250 [square_marker 10 10 20 7]) blank_img) \<noteq> 1 \<and>
   snd (snd (findArucoMarkers_io (fixed_lib DICT_4X4_250 [square_marker 10 10 20 7]) blank_img
                (PyInt 4) (PyInt 250) True)) =
     [[PVStr ''Aruco IDs:'', PVIds (Some [7])], [PVExcType TypeError, PVStr ''app.py'', PVInt 86]]"
proof -
  let ?lib = "fixed_lib DICT_4X4_250 [square_marker 10 10 20 7]"
  let ?g = "blank_img\<lparr>trace_view := (trace_view blank_img)\<lparr>buf_ndim := 2\<rparr>\<rparr>"
  let ?r = "\<lparr>det_corners = [fst (square_marker 10 10 20 7)], det_ids = Some [7]\<rparr>"
  have h1: "detector_wf ?lib"
    by (rule detector_wf_fixed) (simp add: square_marker_def)
  have h2: "draws_in_place ?lib" by (simp add: fixed_lib_def)
  have h3: "buf_ndim (img_memoryview ?lib blank_img) \<noteq> 1"
    by (simp add: fixed_lib_def trace_lib_def blank_img_def)
  have h4: "cvtColor_gray ?lib blank_img = Inr ?g"
    by (simp add: fixed_lib_def trace_lib_def blank_img_def)
  have h5: "aruco_getattr (marker_key (PyInt 4) (PyInt 250)) = Inr DICT_4X4_250"
    by code_simp
  have h6: "detectMarkers ?lib ?g DICT_4X4_250 = Inr ?r"
    by (simp add: fixed_lib_def trace_lib_def fixed_detector_def square_marker_def)
  have h7: "det_corners ?r \<noteq> []" by simp
  show ?thesis
    using h1 h2 h3 findArucoMarkers_io_report [OF h1 h2 h3 h4 h5 h6 h7, of True]
    by (simp add: square_marker_def)
qed

section \<open>How much the prober prints\<close>

lemma probe_loop_io_lines:
  "length (snd (probe_loop_io lib img tbl)) =
     (case fst (probe_loop_io lib img tbl) of Inr (Some _) \<Rightarrow> 1 | _ \<Rightarrow> 0)"
  by (induction lib img tbl rule: probe_loop_io.induct) (auto split: sum.splits)

text \<open>
  C26. The prober prints exactly one line when it returns a result and none when it
  falls off its loop: the \<open>[INFO]\<close> line of the winning dictionary, or the report of
  the \<open>except\<close> clause, but never both and never one line per probed dictionary.
\<close>

theorem findArucoTYPE_io_lines:
  "length (snd (findArucoTYPE_io lib img)) = (case fst (findArucoTYPE_io lib img) of None \<Rightarrow> 0 | Some _ \<Rightarrow> 1)"
  using probe_loop_io_lines [of lib img ARUCO_DICT]
  by (auto simp: findArucoTYPE_io_def split: prod.splits sum.splits option.splits)

section \<open>The output of a finite video\<close>

lemma find_loop_io_list_Nil:
  "find_loop_io lib list_capture ([], ks) sv resp =
     Some (Inr (Break ([], ks) resp), [[PVStr ''Read Success:'', PVBool False]])"
  by (subst find_loop_io.simps) (simp add: loop_body_io_def list_capture_def)

text \<open>A good frame prints its lines and hands over to the rest of the video.\<close>

lemma find_loop_io_list_good:
  assumes "findArucoTYPE_io lib f = (Some (True, t # ts), oT)"
    and "derive_size t = Inr s"
    and "fst (findArucoMarkers_io lib f (PyStr s) (PyInt 250) True) = Some (True, r)"
    and "snd (snd (findArucoMarkers_io lib f (PyStr s) (PyInt 250) True)) = oM"
    and "list_all (\<lambda>k. key_code k \<noteq> 94) ks"
  shows "find_loop_io lib list_capture (f # fs, ks) sv resp =
           map_option (\<lambda>(x, out). (x, [[PVStr ''Read Success:'', PVBool True]] @ oT @
                                        [[PVStr ''Size:'', PVStr s]] @ oM @ out))
             (find_loop_io lib list_capture (fs, drop 1 ks) (Some s) (Some r))"
proof -
  obtain i where M: "findArucoMarkers_io lib f (PyStr s) (PyInt 250) True = (Some (True, r), i, oM)"
    using assms(3,4) by (cases "findArucoMarkers_io lib f (PyStr s) (PyInt 250) True") auto
  show ?thesis
    using assms(1,2,5)
    by (subst find_loop_io.simps)
       (auto simp: loop_body_io_def list_capture_def M key_code_def split: list.splits bind_splits)
qed

lemma find_loop_io_list_all_good:
  assumes good: "\<forall>f\<in>set fs. \<exists>t ts. findArucoTYPE_io lib f = (Some (True, t # ts), oT f) \<and>
                     derive_size t = Inr (sz f) \<and>
                     fst (findArucoMarkers_io lib f (PyStr (sz f)) (PyInt 250) True) = Some (True, rf f) \<and>
                     snd (snd (findArucoMarkers_io lib f (PyStr (sz f)) (PyInt 250) True)) = oM f"
    and keys: "list_all (\<lambda>k. key_code k \<noteq> 94) ks"
  shows "fs \<noteq> [] \<Longrightarrow>
           \<exists>ks'. find_loop_io lib list_capture (fs, ks) sv resp =
             Some (Inr (Break ([], ks') (Some (rf (last fs)))),
                   concat (map (\<lambda>f. [[PVStr ''Read Success:'', PVBool True]] @ oT f @
                                     [[PVStr ''Size:'', PVStr (sz f)]] @ oM f) fs) @
                   [[PVStr ''Read Success:'', PVBool False]])"
  using good keys
proof (induction fs arbitrary: ks sv resp)
  case (Cons f fs)
  then obtain t ts where ty: "findArucoTYPE_io lib f = (Some (True, t # ts), oT f)"
      and sz: "derive_size t = Inr (sz f)"
      and mk: "fst (findArucoMarkers_io lib f (PyStr (sz f)) (PyInt 250) True) = Some (True, rf f)"
      and mo: "snd (snd (findArucoMarkers_io lib f (PyStr (sz f)) (PyInt 250) True)) = oM f" by auto
  have keys': "list_all (\<lambda>k. key_code k \<noteq> 94) (drop 1 ks)"
    using Cons.prems(3) by (cases ks) simp_all
  note step = find_loop_io_list_good [OF ty sz mk mo Cons.prems(3)]
  show ?case
  proof (cases "fs = []")
    case True
    then show ?thesis by (simp add: step find_loop_io_list_Nil)
  next
    case False
    with Cons.IH [of "drop 1 ks" "Some (sz f)" "Some (rf f)"] Cons.prems(2) keys' show ?thesis
      by (auto simp: step)
  qed
qed simp

text \<open>
  C30. What the driver prints on a finite video whose frames all succeed, with no
  \<open>^\<close> key: for each frame in order, \<open>Read Success: True\<close>, the prober's line,
  \<open>Size:\<close> with the parsed size and the annotator's lines; then one
  \<open>Read Success: False\<close> for the read after the last frame, and nothing else. The
  result is \<open>(True, resp, 200)\<close> with the last frame's annotation.
\<close>

theorem driver_console_video:
  assumes "\<forall>f\<in>set fs. \<exists>t ts. findArucoTYPE_io lib f = (Some (True, t # ts), oT f) \<and>
             derive_size t = Inr (sz f) \<and>
             fst (findArucoMarkers_io lib f (PyStr (sz f)) (PyInt 250) True) = Some (True, rf f) \<and>
             snd (snd (findArucoMarkers_io lib f (PyStr (sz f)) (PyInt 250) True)) = oM f"
    and "list_all (\<lambda>k. key_code k \<noteq> 94) ks"
    and "fs \<noteq> []"
  shows "findAruco_with_io lib list_capture (fs, ks) =
           Some (Ret3 True (rf (last fs)) 200,
                 concat (map (\<lambda>f. [[PVStr ''Read Success:'', PVBool True]] @ oT f @
                                   [[PVStr ''Size:'', PVStr (sz f)]] @ oM f) fs) @
                 [[PVStr ''Read Success:'', PVBool False]])"
proof -
  obtain ks' where "find_loop_io lib list_capture (fs, ks) None None =
             Some (Inr (Break ([], ks') (Some (rf (last fs)))),
                   concat (map (\<lambda>f. [[PVStr ''Read Success:'', PVBool True]] @ oT f @
                                     [[PVStr ''Size:'', PVStr (sz f)]] @ oM f) fs) @
                   [[PVStr ''Read Success:'', PVBool False]])"
    using find_loop_io_list_all_good [OF assms(1,2) assms(3)] by blast
  then show ?thesis by (simp add: findAruco_with_io_def list_capture_def)
qed

lemma driver_console_video_witness:
  "findArucoTYPE_io (flat_lib DICT_5X5_250 [square_marker 10 10 20 7]) flat_img =
     (Some (True, [''DICT_5X5_250'']),
      [[PVStr (''[INFO] detected 1 markers for '' @ [CHR 0x27] @ ''DICT_5X5_250'' @ [CHR 0x27])]]) \<and>
   derive_size ''DICT_5X5_250'' = Inr ''5'' \<and>
   list_all (\<lambda>k. key_code k \<noteq> 94) ([] :: int list) \<and>
   findAruco_with_io (flat_lib DICT_5X5_250 [square_marker 10 10 20 7]) list_capture ([flat_img, flat_img], []) =
     Some (Ret3 True (RespBytes ''aGk=\<newline>'') 200,
       concat (replicate 2
         [[PVStr ''Read Success:'', PVBool True],
          [PVStr (''[INFO] detected 1 markers for '' @ [CHR 0x27] @ ''DICT_5X5_250'' @ [CHR 0x27])],
          [PVStr ''Size:'', PVStr ''5''],
          [PVStr ''Aruco IDs:'', PVIds (Some [7])],
          [PVStr ''Base64 Encoded Image:'', PVBytes ''aGk=\<newline>'']]) @
       [[PVStr ''Read Success:'', PVBool False]])"
proof -
  let ?lib = "flat_lib DICT_5X5_250 [square_marker 10 10 20 7]"
  have good: "\<forall>f\<in>set [flat_img, flat_img]. \<exists>t ts.
      findArucoTYPE_io ?lib f = (Some (True, t # ts),
        (\<lambda>_. [[PVStr (''[INFO] detected 1 markers for '' @ [CHR 0x27] @ ''DICT_5X5_250'' @ [CHR 0x27])]]) f) \<and>
      derive_size t = Inr ((\<lambda>_. ''5'') f) \<and>
      fst (findArucoMarkers_io ?lib f (PyStr ((\<lambda>_. ''5'') f)) (PyInt 250) True) =
        Some (True, (\<lambda>_. RespBytes ''aGk=\<newline>'') f) \<and>
      snd (snd (findArucoMarkers_io ?lib f (PyStr ((\<lambda>_. ''5'') f)) (PyInt 250) True)) =
        (\<lambda>_. [[PVStr ''Aruco IDs:'', PVIds (Some [7])],
               [PVStr ''Base64 Encoded Image:'', PVBytes ''aGk=\<newline>'']]) f"
    using flat_probe_io flat_size flat_annotate_io by simp
  have keys: "list_all (\<lambda>k. key_code k \<noteq> 94) ([] :: int list)" by simp
  have ne: "[flat_img, flat_img] \<noteq> []" by simp
  show ?thesis
    using flat_probe_io flat_size keys driver_console_video [OF good keys ne]
    by (simp add: numeral_2_eq_2)
qed

end
