(* ===== verification/EncodeDecode.thy ===== *)
theory EncodeDecode
  imports Base64
begin

text \<open>
  The script \<open>src/image_encode_decode/encode_decode.py\<close>: it reads
  \<open>/images/nature.jpeg\<close>, encodes it with \<open>base64.encodebytes\<close>, prints the encoding,
  decodes it with \<open>base64.decodebytes\<close>, writes the result to
  \<open>/images/new_scenary.jpg\<close> and prints the number of bytes written. The script has
  no \<open>try\<close>: an exception ends it, with the world as it was at that point.

  The world is the part of the machine the script touches: the files (a map from path
  to contents), the directories that exist (\<open>open(p, 'wb')\<close> creates or truncates a
  file in an existing directory and raises FileNotFoundError otherwise), and what was
  printed, each \<open>print\<close> call one line of Python values. The files are never closed;
  CPython flushes them when the script ends, so a write is modelled as done when it
  returns. \<open>warnings.filterwarnings("ignore")\<close> and the bare expression
  \<open>image_read\<close> have no effect on this state.
\<close>

datatype py_val = PStr string | PBytes string | PInt int

record world =
  files :: "string \<rightharpoonup> bytes"
  dirs :: "string list"
  stdout :: "py_val list list"

definition dir_of :: "string \<Rightarrow> string" where
  "dir_of p = rev (drop 1 (dropWhile (\<lambda>c. c \<noteq> CHR ''/'') (rev p)))"

text \<open>\<open>open(p, 'rb').read()\<close>\<close>

definition read_file :: "world \<Rightarrow> string \<Rightarrow> py_exc + bytes" where
  "read_file w p = (case files w p of None \<Rightarrow> Inl FileNotFoundError | Some b \<Rightarrow> Inr b)"

text \<open>\<open>open(p, 'wb')\<close>: an empty file in an existing directory.\<close>

definition open_wb :: "world \<Rightarrow> string \<Rightarrow> py_exc + world" where
  "open_wb w p =
     (if dir_of p \<in> set (dirs w) then Inr (w\<lparr>files := (files w)(p \<mapsto> [])\<rparr>)
      else Inl FileNotFoundError)"

text \<open>\<open>f.write(b)\<close> on a file opened for writing: appends and returns the count.\<close>

definition file_write :: "world \<Rightarrow> string \<Rightarrow> bytes \<Rightarrow> int \<times> world" where
  "file_write w p b =
     (int (length b), w\<lparr>files := (files w)(p \<mapsto> (case files w p of None \<Rightarrow> [] | Some c \<Rightarrow> c) @ b)\<rparr>)"

definition py_print :: "world \<Rightarrow> py_val list \<Rightarrow> world" where
  "py_print w vs = w\<lparr>stdout := stdout w @ [vs]\<rparr>"

definition input_path :: string where
  "input_path = ''/images/nature.jpeg''"

definition output_path :: string where
  "output_path = ''/images/new_scenary.jpg''"

text \<open>The script, statement by statement; \<open>Some e\<close> is an uncaught exception.\<close>

definition encode_decode_script :: "world \<Rightarrow> py_exc option \<times> world" where
  "encode_decode_script w =
     (case read_file w input_path of
        Inl e \<Rightarrow> (Some e, w)
      | Inr image_read \<Rightarrow>
          (case encodebytes (bytes_buffer image_read) of
             Inl e \<Rightarrow> (Some e, w)
           | Inr image_64_encode \<Rightarrow>
               (let w1 = py_print w [PStr ''Image to Encoded string:'', PBytes image_64_encode] in
                case decodebytes image_64_encode of
                  Inl e \<Rightarrow> (Some e, w1)
                | Inr image_64_decode \<Rightarrow>
                    (case open_wb w1 output_path of
                       Inl e \<Rightarrow> (Some e, w1)
                     | Inr w2 \<Rightarrow>
                         (let (n, w3) = file_write w2 output_path image_64_decode
                          in (None, py_print w3 [PStr ''The size of the decoded image:'', PInt n]))))))"

text \<open>A world with a two-byte input file and the \<open>/images\<close> directory.\<close>

definition sample_world :: world where
  "sample_world = \<lparr>files = [input_path \<mapsto> [104, 105]], dirs = [''/images''], stdout = []\<rparr>"

section \<open>Facts about the script's steps\<close>

lemma dir_of_output: "dir_of output_path = ''/images''"
  by (simp add: dir_of_def output_path_def)

lemma encodebytes_bytes_buffer: "encodebytes (bytes_buffer s) = Inr (encodebytes_raw s)"
  by (simp add: encodebytes_def input_type_check_def bytes_buffer_def)

lemma decodebytes_encodebytes_raw: "decodebytes (encodebytes_raw s) = Inr s"
  by (simp add: decodebytes_def decode_encode)

lemma output_ne_input: "output_path \<noteq> input_path"
  by (simp add: output_path_def input_path_def)

lemmas script_steps =
  encode_decode_script_def read_file_def encodebytes_bytes_buffer decodebytes_encodebytes_raw
  open_wb_def dir_of_output file_write_def py_print_def

text \<open>A run with the input present and \<open>/images\<close> existing, step by step.\<close>

lemma script_run_success:
  assumes "files w input_path = Some b" and "''/images'' \<in> set (dirs w)"
  shows "encode_decode_script w =
           (None, w\<lparr>files := (files w)(output_path \<mapsto> b),
                    stdout := stdout w @
                      [[PStr ''Image to Encoded string:'', PBytes (encodebytes_raw b)],
                       [PStr ''The size of the decoded image:'', PInt (int (length b))]]\<rparr>)"
  using assms by (simp add: script_steps)

section \<open>Properties of the script\<close>

text \<open>
  C6. The script round-trips the image: when \<open>/images/nature.jpeg\<close> holds the bytes
  \<open>b\<close> and \<open>/images\<close> exists, it ends without exception, \<open>/images/new_scenary.jpg\<close>
  then holds exactly \<open>b\<close>, and it printed the encoding and the byte count
  \<open>len(b)\<close>; nothing else changes.
\<close>

theorem encode_decode_script_roundtrip:
  assumes "files w input_path = Some b" and "''/images'' \<in> set (dirs w)"
  shows "encode_decode_script w =
           (None, w\<lparr>files := (files w)(output_path \<mapsto> b),
                    stdout := stdout w @
                      [[PStr ''Image to Encoded string:'', PBytes (encodebytes_raw b)],
                       [PStr ''The size of the decoded image:'', PInt (int (length b))]]\<rparr>)"
  using assms by (simp add: script_steps)

lemma encode_decode_script_roundtrip_witness:
  "files sample_world input_path = Some [104, 105] \<and> ''/images'' \<in> set (dirs sample_world) \<and>
   encode_decode_script sample_world =
     (None, sample_world\<lparr>files := (files sample_world)(output_path \<mapsto> [104, 105]),
              stdout := [[PStr ''Image to Encoded string:'', PBytes (encodebytes_raw [104, 105])],
                         [PStr ''The size of the decoded image:'', PInt 2]]\<rparr>)"
proof -
  have h1: "files sample_world input_path = Some [104, 105]" by (simp add: sample_world_def)
  have h2: "''/images'' \<in> set (dirs sample_world)" by (simp add: sample_world_def)
  show ?thesis
    using h1 h2 encode_decode_script_roundtrip [OF h1 h2] by (simp add: sample_world_def)
qed

text \<open>
  C19. Without the input file the script stops at its first statement with
  FileNotFoundError, having written and printed nothing.
\<close>

theorem encode_decode_script_missing_input:
  assumes "files w input_path = None"
  shows "encode_decode_script w = (Some FileNotFoundError, w)"
  using assms by (simp add: encode_decode_script_def read_file_def)

lemma encode_decode_script_missing_input_witness:
  "files (sample_world\<lparr>files := Map.empty\<rparr>) input_path = None \<and>
   encode_decode_script (sample_world\<lparr>files := Map.empty\<rparr>) =
     (Some FileNotFoundError, sample_world\<lparr>files := Map.empty\<rparr>)"
proof -
  have h: "files (sample_world\<lparr>files := Map.empty\<rparr>) input_path = None" by simp
  show ?thesis using h encode_decode_script_missing_input [OF h] by simp
qed

text \<open>
  C20. The script writes no file but \<open>/images/new_scenary.jpg\<close>: every other path,
  the input included, has the same contents afterwards, whatever happens.
\<close>

theorem encode_decode_script_frame:
  assumes "p \<noteq> output_path"
  shows "files (snd (encode_decode_script w)) p = files w p"
  using assms
  by (auto simp: script_steps Let_def split: sum.splits option.splits prod.splits)

lemma encode_decode_script_frame_witness:
  "input_path \<noteq> output_path \<and>
   files (snd (encode_decode_script sample_world)) input_path = Some [104, 105]"
proof -
  have h: "input_path \<noteq> output_path" using output_ne_input by simp
  show ?thesis
    using h encode_decode_script_frame [OF h, of sample_world] by (simp add: sample_world_def)
qed

text \<open>
  C27. Running the script again changes no file: whatever the first run did (it
  succeeded, found no input, or could not open the output), a second run leaves the
  files exactly as the first run left them, because the input is never written and the
  output is rewritten with the same bytes.
\<close>

theorem encode_decode_script_idempotent:
  "files (snd (encode_decode_script (snd (encode_decode_script w)))) =
   files (snd (encode_decode_script w))"
proof (cases "files w input_path")
  case None
  then show ?thesis by (simp add: encode_decode_script_def read_file_def)
next
  case (Some b)
  show ?thesis
  proof (cases "''/images'' \<in> set (dirs w)")
    case True
    have in_kept: "files (snd (encode_decode_script w)) input_path = Some b"
      using Some output_ne_input by (simp add: script_run_success [OF Some True])
    have dirs_kept: "''/images'' \<in> set (dirs (snd (encode_decode_script w)))"
      using True by (simp add: script_run_success [OF Some True])
    show ?thesis
      using script_run_success [OF in_kept dirs_kept] script_run_success [OF Some True]
      by (simp add: fun_upd_idem)
  next
    case False
    then show ?thesis using Some by (simp add: script_steps Let_def)
  qed
qed

end
