(* ===== verification/Spec2Isabelle.thy ===== *)
theory Spec2Isabelle
  imports Console EncodeDecode
begin

text \<open>
  \<^bold>\<open>A verification development for the repository opencv-demos.\<close>

  The repository holds two unrelated Python scripts. \<open>src/aruco_marker_detection/app.py\<close>
  defines a class \<open>Aruco\<close> with a dictionary catalog (\<open>__init__\<close>), a prober that
  finds which predefined ArUco dictionary matches the markers of an image
  (\<open>findArucoTYPE\<close>), an annotator that draws the markers' centres and ids and
  returns the image base64-encoded (\<open>findArucoMarkers\<close>), and a driver
  (\<open>findAruco\<close>) that reads an image, runs the prober, derives the marker size from
  the winning dictionary's name and runs the annotator; the module's last lines call the
  driver and unpack its result. \<open>src/image_encode_decode/encode_decode.py\<close> reads a
  file, base64-encodes it, decodes it again and writes the result to a new file. The
  ArUco components interact by plain calls: the driver calls the prober and the
  annotator on the same image, the prober and the annotator share the catalog's
  dictionary constants, and all of them call OpenCV.

  \<^bold>\<open>Library layout.\<close>
  \<^item> \<open>Prelude\<close>: Python's exceptions as the datatype \<open>py_exc\<close>, bytes as \<open>8 word\<close>,
    the short-circuit \<open>py_bind\<close>, and the built-ins the scripts use: list indexing
    (\<open>py_index\<close>), \<open>str.split\<close> (\<open>py_split\<close>, with its join round trip),
    \<open>int()\<close> of a float (\<open>py_int_of_float\<close>, truncation towards zero, equal to
    \<open>sdiv\<close> for halves) and \<open>str()\<close> of an int (\<open>py_str_int\<close>).
  \<^item> \<open>ArucoDict\<close>: the 21 \<open>cv2.aruco\<close> dictionary constants as the datatype
    \<open>aruco_dict\<close>, \<open>getattr(arucom, key)\<close> as \<open>aruco_getattr\<close>, and the catalog
    \<open>ARUCO_DICT\<close> of \<open>Aruco.__init__\<close> as an association list in insertion order.
  \<^item> \<open>Base64\<close>: CPython's \<open>encodebytes\<close>/\<open>encodestring\<close> (57-byte chunks, 76-char
    lines), the non-strict scanner of \<open>a2b_base64\<close> behind \<open>decodebytes\<close>, and the
    one-dimensional-buffer check; decoding inverts encoding, the encoding's length and
    line shape, and the scanner's indifference to characters outside the alphabet.
  \<^item> \<open>CvLib\<close>: OpenCV as an interface record \<open>cv_lib\<close> over an abstract image type
    (imread, cvtColor, detectMarkers, drawDetectedMarkers, circle, putText, the
    image's memoryview), and two instances: \<open>trace_lib\<close>, whose image logs the
    drawing calls, and \<open>fixed_lib\<close>, a detector that sees given markers under one
    dictionary; \<open>detector_wf\<close> is the contract OpenCV documents for a detection result
    (four corners per marker, one id per marker, no id array when nothing is found).
  \<^item> \<open>FindType\<close>: \<open>findArucoTYPE\<close> with its loop \<open>probe_loop\<close>, and the contract
    \<open>probe_spec\<close> (a \<open>dropWhile\<close> scan of the catalog) it refines.
  \<^item> \<open>FindMarkers\<close>: \<open>findArucoMarkers\<close> (try body, the loop \<open>annotate_loop\<close> that
    returns in its first iteration, the except clause), the key
    \<open>marker_key\<close>, the centre \<open>marker_center\<close>. OpenCV draws into the caller's array,
    so the function returns the Python result and the caller's image after the call.
  \<^item> \<open>FindAruco\<close>: one iteration of the driver's \<open>while True\<close> loop
    (\<open>loop_body\<close>, which leaves the loop or goes on) and the loop \<open>find_loop\<close> over
    any capture object (\<open>capture\<close>: read, release, waitKey over a world \<open>'w\<close>), the
    driver \<open>findAruco\<close> with the object \<open>cv2.imread\<close> really returns, and the
    module's top level \<open>module_main\<close>; for the runs, a finite frame list
    (\<open>list_capture\<close>) and a live camera on a still scene with a list of key presses
    (\<open>steady_capture\<close>).
  \<^item> \<open>Console\<close>: the same functions with their \<open>print\<close> calls (\<open>*_io\<close>), returning
    the printed lines beside the result; errors carry the line the \<open>except\<close> clause
    reports. Erasing the output gives back the silent model.
  \<^item> \<open>EncodeDecode\<close>: the codec script over an explicit world (files, directories,
    printed lines).
  \<^item> This theory: the properties that span the prober, the annotator and the driver.

  \<^bold>\<open>What the lemmas show.\<close> The claims are numbered by importance. The driver
  as written always returns the two-element failure tuple, because it calls
  \<open>read\<close> on the array \<open>cv2.imread\<close> returns (C1), and the module then dies
  with ValueError (C2). The prober refines its contract, a first-match scan of the
  catalog (C3). The annotator never returns an encoded NumPy image, because
  \<open>encodestring\<close> accepts only one-dimensional buffers (C4); across components, no
  capture of OpenCV images makes the driver report success (C5). The codec script
  round-trips its file (C6). Only the first marker is annotated (C7); the first
  dictionary with a marker wins (C8); the catalog is a well-formed dictionary of 21
  entries (C9). The driver never forwards \<open>totalMarkers\<close>, so it annotates with the
  250-marker dictionary of the detected side whatever the prober found, and a marker
  that dictionary does not hold (an id of 250 or more of \<open>DICT_4X4_1000\<close>) makes it
  fail on a readable frame (C10); on a finite capture its loop stops (C11). The
  prober gives \<open>None\<close> on an image with no marker (C12) and \<open>(False, [])\<close> on a
  detector exception (C13); an unknown size/population pair is a configuration error
  of the annotator (C14), which gives \<open>None\<close> when no marker is found (C15). An
  empty capture leaves \<open>resp\<close> unbound (C16); the prober's results have the
  documented shape (C17); the annotator's centre is the diagonal's midpoint rounded
  towards zero (C18). The codec script fails cleanly without input (C19) and writes
  no other file (C20). On a live camera the loop never returns without the \<open>^\<close> key
  (C21) and returns with success once it is pressed (C22). Running \<open>app.py\<close> prints
  one error report, for line 101 (C23); a frame without a marker makes the driver
  print the read and the TypeError report of line 106 and return the two-element
  tuple (C24). Under the OpenCV contract, a detection makes the annotator print the
  ids and the TypeError report of line 86 (C25); the prober prints exactly one line
  per result (C26). A second run of the codec script changes no file (C27). A finite
  video of good frames without the stop key ends with \<open>(True, resp, 200)\<close> for its
  last frame (C28). A detection attributed to a fixed-layout dictionary stops the
  driver with \<open>(False, "Internal error", 500)\<close> (C29). A finite video of good frames
  prints, per frame and in order, the read, the prober's, the size and the annotator's
  lines, then one failed read (C30). The size parse returns the grid side of any name
  of the catalog's shape (C31). The \<open>Base64\<close> theory also shows the length and line
  layout of CPython's encoding and that decoding ignores characters outside the
  alphabet; \<open>Console\<close> shows that erasing the printed lines gives back the silent
  model, so the silent claims hold of the printing program.

  The success premises of C21, C22, C28 and C30 (an annotator that returns
  \<open>(True, ...)\<close>) hold only for a library whose images \<open>encodestring\<close> accepts:
  the witnesses use \<open>flat_lib\<close>, a hypothetical library with one-dimensional images
  whose \<open>cvtColor\<close> is the identity. With OpenCV's own images C4 and C5 show the
  premise never holds; those claims pin the loop's control flow, not a reachable
  OpenCV run. \<open>fixed_lib\<close> sees markers under one dictionary only; the witnesses
  use it where that is OpenCV's behaviour too (no markers at all, a fixed-layout
  family, or an id of 250 or more, which only \<open>DICT_4X4_1000\<close> among the catalog's
  4x4 dictionaries holds).

  \<^bold>\<open>Bounds and fuel.\<close> No fuel is used. The driver loop, which can run for ever on a
  live camera, is a \<open>partial_function (option)\<close>; its termination on a finite frame
  list is a theorem (C11), by induction on the frames; on a live camera that a run
  does not stop (C21) is shown by induction over the loop's fixed-point approximations
  (\<open>find_loop.raw_induct\<close>), and that it stops at the key \<open>^\<close> (C22) by induction on
  the key presses. The printing loop is related to the silent one in both directions
  by the same inductions. \<open>chunks_of\<close> terminates by the
  measure of the remaining input. Python integers are \<open>int\<close>; \<open>& 0xff\<close> is
  \<open>and k 255\<close> on \<open>int\<close> as on Python's two's-complement integers; bytes are
  \<open>8 word\<close>. Corner coordinates (float32) are rationals; the centre's float division
  of an integer sum is exact below \<open>2^53\<close>, far beyond any image size.

  \<^bold>\<open>Not modelled.\<close> Marker detection, rasterisation and image decoding inside
  OpenCV (parameters of every theorem); the characters Python renders for the printed
  values (the model keeps the values; NumPy's \<open>repr\<close> of the id array and the class
  repr of an exception are left abstract); \<open>cv2.destroyAllWindows()\<close> (line 122, no
  effect on the state modelled); \<open>Dictionary_get\<close> and
  \<open>DetectorParameters_create\<close>, folded into \<open>detectMarkers\<close>, which takes the
  dictionary constant (the script always passes default parameters; on a catalog
  constant neither call raises in OpenCV 4.6, so the printing model reports a
  detector error at line 43, the \<open>detectMarkers\<close> call); the imports and
  the class statement, which have no behaviour of their own; the library
  versions: \<open>cv2.aruco.Dictionary_get\<close> needs OpenCV up to 4.6 and
  \<open>base64.encodestring\<close> Python up to 3.8 (in 3.9 and later it is an AttributeError,
  which ends in the same \<open>except\<close> clause).
\<close>

section \<open>The driver on OpenCV images\<close>

text \<open>
  C5. No finite capture of OpenCV images (arrays that are not one-dimensional, drawn
  on in place) makes the driver report success: every frame either stops the run with
  a failure before \<open>waitKey\<close> is reached, or there is no frame and \<open>resp\<close> is
  unbound; the result is always one of the two failure tuples.
\<close>

theorem driver_never_succeeds_on_images:
  assumes "draws_in_place lib"
    and "\<forall>f\<in>set fs. buf_ndim (img_memoryview lib f) \<noteq> 1"
  shows "findAruco_with lib list_capture (fs, ks) \<in>
           {Some (Ret2 False internal_error), Some (Ret3 False internal_error 500)}"
proof (cases fs)
  case Nil
  then show ?thesis
    by (subst findAruco_with_def, subst find_loop.simps) (simp add: loop_body_def list_capture_def)
next
  case (Cons f rest)
  with assms(2) have nd: "buf_ndim (img_memoryview lib f) \<noteq> 1" by simp
  have ann: "fst (findArucoMarkers lib f ms tm draw) = Some (b, r) \<Longrightarrow>
              \<not> b \<and> r = internal_error"
    for ms tm draw b r
    using findArucoMarkers_not_true [OF assms(1) nd, of ms tm draw] by auto
  show ?thesis
    using Cons
    by (subst findAruco_with_def, subst find_loop.simps)
       (auto simp: loop_body_def list_capture_def dest: ann split: option.splits sum.splits prod.splits if_splits)
qed

lemma driver_never_succeeds_on_images_witness:
  "draws_in_place (fixed_lib DICT_5X5_250 [square_marker 10 10 20 7]) \<and>
   buf_ndim (img_memoryview (fixed_lib DICT_5X5_250 [square_marker 10 10 20 7]) blank_img) \<noteq> 1 \<and>
   findAruco_with (fixed_lib DICT_5X5_250 [square_marker 10 10 20 7]) list_capture ([blank_img], []) \<in>
     {Some (Ret2 False internal_error), Some (Ret3 False internal_error 500)}"
proof -
  have h1: "draws_in_place (fixed_lib DICT_5X5_250 [square_marker 10 10 20 7])"
    by (simp add: fixed_lib_def)
  have h2: "\<forall>f\<in>set [blank_img].
              buf_ndim (img_memoryview (fixed_lib DICT_5X5_250 [square_marker 10 10 20 7]) f) \<noteq> 1"
    by (simp add: fixed_lib_def trace_lib_def blank_img_def)
  show ?thesis
    using h1 h2 driver_never_succeeds_on_images [OF h1 h2, of "[]"]
    by (simp add: fixed_lib_def trace_lib_def blank_img_def)
qed

end
